theory Spec2Isabelle
  imports Main
begin

text \<open>
  The repository holds the browser agent twice.  The plan for the \<^verbatim>\<open>do\<close> command lists
  a first \<^verbatim>\<open>BrowserAgent\<close>, which calls the model service turn by turn, looks for the
  \<^verbatim>\<open>done\<close> tool itself and runs every other tool through \<^verbatim>\<open>executeTool\<close>, together
  with the \<^verbatim>\<open>do\<close> command handler of the daemon.  The file \<^verbatim>\<open>src/browser-agent.ts\<close>
  holds a second one, which registers its tools as handlers with an agent SDK and reads
  the SDK's message stream.  Both are embedded here: \<open>executeTool\<close>, \<open>execute\<close> and
  \<open>do_command\<close> from the plan, the \<open>browser_\<close> handlers and \<open>execute_sdk\<close> from
  \<^verbatim>\<open>src/browser-agent.ts\<close>.
\<close>

section \<open>JavaScript values\<close>

text \<open>
  Tool inputs arrive as \<^verbatim>\<open>unknown\<close> and are read through
  \<^verbatim>\<open>Record<string, unknown>\<close>, so a field holds any JSON value and a missing
  field reads as \<^verbatim>\<open>undefined\<close>.  The tool schemas only declare booleans,
  numbers and strings; numbers are pixel and millisecond counts and are modelled as
  integers (fractions and NaN are outside this model).
\<close>

datatype jsval = Undefined | Null | Bool bool | Num int | Str string

text \<open>Truthiness, as tested by \<^verbatim>\<open>!x\<close>, \<^verbatim>\<open>x || y\<close> and \<^verbatim>\<open>if (x)\<close>.\<close>

fun truthy :: "jsval \<Rightarrow> bool" where
  "truthy Undefined = False"
| "truthy Null = False"
| "truthy (Bool b) = b"
| "truthy (Num n) = (n \<noteq> 0)"
| "truthy (Str s) = (s \<noteq> [])"

text \<open>\<^verbatim>\<open>a || b\<close>\<close>

definition js_or :: "jsval \<Rightarrow> jsval \<Rightarrow> jsval" where
  "js_or a b = (if truthy a then a else b)"

text \<open>\<^verbatim>\<open>typeof x === 'string'\<close>\<close>

fun is_string :: "jsval \<Rightarrow> bool" where
  "is_string (Str s) = True"
| "is_string v = False"

text \<open>
  Decimal rendering of numbers, as \<^verbatim>\<open>String(n)\<close> gives for integers below
  \<^verbatim>\<open>1e21\<close> in absolute value (from there on JavaScript uses the exponent form,
  which is outside this model).
\<close>

definition digit_char :: "nat \<Rightarrow> char" where
  "digit_char d = (if d = 0 then CHR ''0'' else if d = 1 then CHR ''1''
     else if d = 2 then CHR ''2'' else if d = 3 then CHR ''3''
     else if d = 4 then CHR ''4'' else if d = 5 then CHR ''5''
     else if d = 6 then CHR ''6'' else if d = 7 then CHR ''7''
     else if d = 8 then CHR ''8'' else CHR ''9'')"

function show_nat :: "nat \<Rightarrow> string" where
  "show_nat n = (if n < 10 then [digit_char n]
                 else show_nat (n div 10) @ [digit_char (n mod 10)])"
  by pat_completeness auto
termination
  by (relation "measure (\<lambda>n. n)") auto

declare show_nat.simps [simp del]

definition show_int :: "int \<Rightarrow> string" where
  "show_int i = (if i < 0 then CHR ''-'' # show_nat (nat (- i)) else show_nat (nat i))"

text \<open>String conversion, as a template literal \<^verbatim>\<open>`${x}`\<close> and \<^verbatim>\<open>String(x)\<close> perform it.\<close>

fun to_string :: "jsval \<Rightarrow> string" where
  "to_string Undefined = ''undefined''"
| "to_string Null = ''null''"
| "to_string (Bool b) = (if b then ''true'' else ''false'')"
| "to_string (Num n) = show_int n"
| "to_string (Str s) = s"

text \<open>An object read through \<^verbatim>\<open>Record<string, unknown>\<close>: \<^verbatim>\<open>args.k\<close>.\<close>

type_synonym js_object = "string \<rightharpoonup> jsval"

definition field :: "js_object \<Rightarrow> string \<Rightarrow> jsval" where
  "field args k = (case args k of None \<Rightarrow> Undefined | Some v \<Rightarrow> v)"

section \<open>Thrown values\<close>

text \<open>
  Anything can be thrown; the handlers distinguish \<^verbatim>\<open>error instanceof Error\<close>
  (then read \<^verbatim>\<open>error.message\<close>) from every other value (then \<^verbatim>\<open>String(error)\<close>).
\<close>

datatype thrown = Error_object string | Thrown_value jsval

fun error_message :: "thrown \<Rightarrow> string" where
  "error_message (Error_object m) = m"
| "error_message (Thrown_value v) = to_string v"

section \<open>The browser manager used by the tool dispatcher\<close>

text \<open>
  The methods \<^verbatim>\<open>executeTool\<close> calls on \<^verbatim>\<open>this.browser\<close>.  The browser is
  external: each method is a parameter that takes the session state \<open>'b\<close>, may raise, and
  returns the state it leaves behind.  Arguments are passed as they are read from the
  input, since the casts \<^verbatim>\<open>as string\<close> and \<^verbatim>\<open>as number\<close> check nothing.
\<close>

record 'b browser_manager =
  snapshot :: "bool \<Rightarrow> 'b \<Rightarrow> (thrown + string) \<times> 'b"
  click :: "jsval \<Rightarrow> 'b \<Rightarrow> (thrown + unit) \<times> 'b"
  fill :: "jsval \<Rightarrow> jsval \<Rightarrow> 'b \<Rightarrow> (thrown + unit) \<times> 'b"
  type_text :: "jsval \<Rightarrow> jsval \<Rightarrow> 'b \<Rightarrow> (thrown + unit) \<times> 'b"
  press :: "jsval \<Rightarrow> 'b \<Rightarrow> (thrown + unit) \<times> 'b"
  scroll :: "jsval \<Rightarrow> jsval \<Rightarrow> 'b \<Rightarrow> (thrown + unit) \<times> 'b"
  waitForSelector :: "jsval \<Rightarrow> 'b \<Rightarrow> (thrown + unit) \<times> 'b"

text \<open>
  A call whose value is discarded, followed by the text returned when it succeeds:
  \<^verbatim>\<open>await this.browser.m(...); return `...`;\<close>
\<close>

definition call_then :: "(thrown + unit) \<times> 'b \<Rightarrow> string \<Rightarrow> (thrown + string) \<times> 'b" where
  "call_then r txt = (case r of (Inl e, s) \<Rightarrow> (Inl e, s) | (Inr u, s) \<Rightarrow> (Inr txt, s))"

text \<open>
  The body of the \<^verbatim>\<open>try\<close> block of \<^verbatim>\<open>executeTool\<close>: the \<^verbatim>\<open>switch\<close> on the
  tool name.  The timed wait (\<^verbatim>\<open>setTimeout\<close>) touches no browser method and leaves
  the session state as it is.
\<close>

definition executeTool_try ::
  "'b browser_manager \<Rightarrow> string \<Rightarrow> js_object \<Rightarrow> 'b \<Rightarrow> (thrown + string) \<times> 'b" where
  "executeTool_try browser name args s =
    (if name = ''snapshot'' then
       snapshot browser (\<not> truthy (field args ''fullPage'')) s
     else if name = ''click'' then
       call_then (click browser (field args ''target'') s)
         (''Clicked '' @ to_string (field args ''target''))
     else if name = ''fill'' then
       call_then (fill browser (field args ''target'') (field args ''value'') s)
         (''Filled '' @ to_string (field args ''target'') @ '' with '' @ [CHR 0x22]
            @ to_string (field args ''value'') @ [CHR 0x22])
     else if name = ''type'' then
       call_then (type_text browser (field args ''target'') (field args ''text'') s)
         (''Typed '' @ [CHR 0x22] @ to_string (field args ''text'') @ [CHR 0x22]
            @ '' into '' @ to_string (field args ''target''))
     else if name = ''press'' then
       call_then (press browser (field args ''key'') s)
         (''Pressed '' @ to_string (field args ''key''))
     else if name = ''scroll'' then
       (let amount = js_or (field args ''amount'') (Num 500) in
        call_then (scroll browser (field args ''direction'') amount s)
          (''Scrolled '' @ to_string (field args ''direction'') @ '' ''
             @ to_string amount @ ''px''))
     else if name = ''wait'' then
       (if truthy (field args ''ms'') then
          (Inr (''Waited '' @ to_string (field args ''ms'') @ ''ms''), s)
        else if truthy (field args ''selector'') then
          call_then (waitForSelector browser (field args ''selector'') s)
            (''Element '' @ to_string (field args ''selector'') @ '' appeared'')
        else (Inr ''No wait condition specified'', s))
     else (Inr (''Unknown tool: '' @ name), s))"

text \<open>
  \<^verbatim>\<open>executeTool\<close>: the \<^verbatim>\<open>try\<close> block with its \<^verbatim>\<open>catch\<close>, which turns whatever
  was thrown into the text \<^verbatim>\<open>`Error: ${message}`\<close>.
\<close>

definition executeTool ::
  "'b browser_manager \<Rightarrow> string \<Rightarrow> js_object \<Rightarrow> 'b \<Rightarrow> (thrown + string) \<times> 'b" where
  "executeTool browser name args s =
    (case executeTool_try browser name args s of
       (Inl error, s') \<Rightarrow> (Inr (''Error: '' @ error_message error), s')
     | (Inr text, s') \<Rightarrow> (Inr text, s'))"

section \<open>The tool-calling loop\<close>

text \<open>
  A response of the model service is a list of content blocks; a \<^verbatim>\<open>tool_use\<close> block
  carries a correlation id, the tool's name and its input.
\<close>

record tool_use =
  tool_id :: string
  tool_name :: string
  tool_input :: js_object

datatype content_block = Text_block string | Tool_use_block tool_use

record tool_result =
  tool_use_id :: string
  result_content :: string

datatype message =
    User_text string
  | Assistant_content "content_block list"
  | User_results "tool_result list"

record agent_config =
  model :: string
  maxTurns :: int
  timeout :: int

text \<open>
  \<^verbatim>\<open>AgentResult\<close>.  The \<^verbatim>\<open>done\<close> branch copies \<^verbatim>\<open>input.success\<close> and
  \<^verbatim>\<open>input.summary\<close> through an unchecked cast, so both fields hold whatever value
  the input holds.
\<close>

record agent_result =
  success :: jsval
  summary :: jsval
  turns :: int

text \<open>The names of the tool catalogue sent with every request.\<close>

definition tools :: "string list" where
  "tools = [''snapshot'', ''click'', ''fill'', ''type'', ''press'', ''scroll'', ''wait'', ''done'']"

text \<open>
  The parameters of \<^verbatim>\<open>client.messages.create\<close>.  The system prompt is a constant
  text and is left out.
\<close>

record create_params =
  req_model :: string
  req_max_tokens :: int
  req_tools :: "string list"
  req_messages :: "message list"

text \<open>
  The model service is external: a parameter that takes the request and the service's
  state \<open>'m\<close>, and either raises or returns \<^verbatim>\<open>response.content\<close>.
\<close>

type_synonym 'm messages_create =
  "create_params \<Rightarrow> 'm \<Rightarrow> (thrown + content_block list) \<times> 'm"

text \<open>\<^verbatim>\<open>response.content.filter(block => block.type === 'tool_use')\<close>\<close>

fun toolUses :: "content_block list \<Rightarrow> tool_use list" where
  "toolUses [] = []"
| "toolUses (Text_block t # bs) = toolUses bs"
| "toolUses (Tool_use_block u # bs) = u # toolUses bs"

text \<open>
  \<^verbatim>\<open>response.content.find(block => block.type === 'text')?.text\<close>: the text of the
  first text block, \<^verbatim>\<open>undefined\<close> when there is none.
\<close>

fun textBlock_text :: "content_block list \<Rightarrow> jsval" where
  "textBlock_text [] = Undefined"
| "textBlock_text (Text_block t # bs) = Str t"
| "textBlock_text (Tool_use_block u # bs) = textBlock_text bs"

text \<open>
  The \<^verbatim>\<open>for (const toolUse of toolUses)\<close> loop: it ends the whole call at a tool
  named \<^verbatim>\<open>done\<close>, and otherwise runs the tool and appends its result.
\<close>

datatype tools_outcome =
    Done_signal jsval jsval
  | Tool_raised thrown
  | Tool_results "tool_result list"

fun run_tools ::
  "'b browser_manager \<Rightarrow> tool_use list \<Rightarrow> tool_result list \<Rightarrow> 'b \<Rightarrow> tools_outcome \<times> 'b" where
  "run_tools browser [] toolResults s = (Tool_results toolResults, s)"
| "run_tools browser (toolUse # rest) toolResults s =
    (if tool_name toolUse = ''done'' then
       (Done_signal (field (tool_input toolUse) ''success'')
          (field (tool_input toolUse) ''summary''), s)
     else
       (case executeTool browser (tool_name toolUse) (tool_input toolUse) s of
          (Inl e, s') \<Rightarrow> (Tool_raised e, s')
        | (Inr result, s') \<Rightarrow>
            run_tools browser rest
              (toolResults @ [\<lparr>tool_use_id = tool_id toolUse, result_content = result\<rparr>]) s'))"

text \<open>
  The \<^verbatim>\<open>while (turns < this.config.maxTurns)\<close> loop of \<^verbatim>\<open>execute\<close>, from an
  arbitrary turn counter and conversation.  The call to the model service is not inside
  any \<^verbatim>\<open>try\<close>, so what it raises leaves the function.
\<close>

function execute_loop ::
  "agent_config \<Rightarrow> 'm messages_create \<Rightarrow> 'b browser_manager \<Rightarrow> int \<Rightarrow> message list
     \<Rightarrow> 'm \<Rightarrow> 'b \<Rightarrow> (thrown + agent_result) \<times> 'm \<times> 'b" where
  "execute_loop config create browser n messages m s =
    (if n < maxTurns config then
       (let n' = n + 1 in
        case create \<lparr>req_model = model config, req_max_tokens = 4096,
                      req_tools = tools, req_messages = messages\<rparr> m of
          (Inl e, m') \<Rightarrow> (Inl e, m', s)
        | (Inr content, m') \<Rightarrow>
            (if toolUses content = [] then
               (Inr \<lparr>success = Bool True,
                     summary = js_or (textBlock_text content) (Str ''Completed''),
                     turns = n'\<rparr>, m', s)
             else
               (case run_tools browser (toolUses content) [] s of
                  (Done_signal input_success input_summary, s') \<Rightarrow>
                    (Inr \<lparr>success = input_success, summary = input_summary, turns = n'\<rparr>,
                     m', s')
                | (Tool_raised e, s') \<Rightarrow> (Inl e, m', s')
                | (Tool_results toolResults, s') \<Rightarrow>
                    execute_loop config create browser n'
                      (messages @ [Assistant_content content, User_results toolResults])
                      m' s')))
     else
       (Inr \<lparr>success = Bool False,
             summary = Str (''Task incomplete after '' @ show_int (maxTurns config) @ '' turns''),
             turns = n\<rparr>, m, s))"
  by pat_completeness auto
termination
  by (relation "measure (\<lambda>(config, create, browser, n, messages, m, s).
        nat (maxTurns config - n))") auto

declare execute_loop.simps [simp del]

text \<open>\<^verbatim>\<open>execute(instruction)\<close>: the loop from zero turns and the instruction alone.\<close>

definition execute ::
  "agent_config \<Rightarrow> 'm messages_create \<Rightarrow> 'b browser_manager \<Rightarrow> string
     \<Rightarrow> 'm \<Rightarrow> 'b \<Rightarrow> (thrown + agent_result) \<times> 'm \<times> 'b" where
  "execute config create browser instruction m s =
     execute_loop config create browser 0 [User_text instruction] m s"

section \<open>The command handler that calls the agent\<close>

text \<open>
  The constructor merges the caller's partial configuration over
  \<^verbatim>\<open>DEFAULT_CONFIG\<close>: \<^verbatim>\<open>{ ...DEFAULT_CONFIG, ...config }\<close>.  A field is
  either absent or holds a value of its type; a field that is present with the value
  \<^verbatim>\<open>undefined\<close>, which the spread would copy over the default, is outside this
  model.  \<open>DEFAULT_CONFIG\<close> holds the constants of the plan's listing of the class; the
  last step of the plan and \<^verbatim>\<open>src/browser-agent.ts\<close> read the three values from the
  environment instead, so \<open>execute\<close> and \<open>execute_sdk\<close> take the merged
  configuration as a parameter.
\<close>

record partial_config =
  model_opt :: "string option"
  maxTurns_opt :: "int option"
  timeout_opt :: "int option"

definition DEFAULT_CONFIG :: agent_config where
  "DEFAULT_CONFIG = \<lparr>model = ''claude-sonnet-4-20250514'', maxTurns = 15, timeout = 120000\<rparr>"

definition merge_config :: "agent_config \<Rightarrow> partial_config option \<Rightarrow> agent_config" where
  "merge_config defaults config =
    (case config of
       None \<Rightarrow> defaults
     | Some c \<Rightarrow>
         \<lparr>model = (case model_opt c of None \<Rightarrow> model defaults | Some v \<Rightarrow> v),
          maxTurns = (case maxTurns_opt c of None \<Rightarrow> maxTurns defaults | Some v \<Rightarrow> v),
          timeout = (case timeout_opt c of None \<Rightarrow> timeout defaults | Some v \<Rightarrow> v)\<rparr>)"

text \<open>
  The response of the \<^verbatim>\<open>do\<close> command: \<^verbatim>\<open>{ success: false, error }\<close> or
  \<^verbatim>\<open>{ success, data: { summary, turns } }\<close>.
\<close>

datatype do_response = Do_error string | Do_data jsval jsval int

text \<open>
  The \<^verbatim>\<open>case 'do'\<close> branch of the daemon's command handler.  It is the only place
  that looks at the instruction before the agent runs, and it wraps \<^verbatim>\<open>execute\<close> in
  a \<^verbatim>\<open>try\<close>.  Constructing the agent (the merge of the configuration and the
  creation of the client) is taken not to raise.
\<close>

definition do_command ::
  "'m messages_create \<Rightarrow> 'b browser_manager \<Rightarrow> jsval \<Rightarrow> partial_config option
     \<Rightarrow> 'm \<Rightarrow> 'b \<Rightarrow> do_response \<times> 'm \<times> 'b" where
  "do_command create browser instruction config m s =
    (if \<not> truthy instruction \<or> \<not> is_string instruction then
       (Do_error ''Missing instruction'', m, s)
     else
       (case execute (merge_config DEFAULT_CONFIG config) create browser
               (to_string instruction) m s of
          (Inr result, m', s') \<Rightarrow>
            (Do_data (success result) (summary result) (turns result), m', s')
        | (Inl error, m', s') \<Rightarrow> (Do_error (error_message error), m', s')))"

section \<open>The agent built on the SDK's message stream\<close>

text \<open>
  In \<^verbatim>\<open>browser-agent.ts\<close> the tools are handlers registered with the SDK, which
  validates their arguments against the declared schema before calling them, and the
  loop is the SDK's: \<^verbatim>\<open>execute\<close> only reads the stream of messages that
  \<^verbatim>\<open>query\<close> produces.
\<close>

datatype direction = Up | Down | Left | Right

fun direction_name :: "direction \<Rightarrow> string" where
  "direction_name Up = ''up''"
| "direction_name Down = ''down''"
| "direction_name Left = ''left''"
| "direction_name Right = ''right''"

text \<open>
  The browser as the handlers use it: snapshots, locators (\<open>'l\<close>) and the page
  (\<open>'p\<close>), on which a script is evaluated.
\<close>

record ('b, 'l, 'p) browser_api =
  getSnapshot :: "bool \<Rightarrow> 'b \<Rightarrow> (thrown + string) \<times> 'b"
  getLocator :: "string \<Rightarrow> 'b \<Rightarrow> (thrown + 'l) \<times> 'b"
  locator_click :: "'l \<Rightarrow> 'b \<Rightarrow> (thrown + unit) \<times> 'b"
  getPage :: "'b \<Rightarrow> (thrown + 'p) \<times> 'b"
  page_evaluate :: "'p \<Rightarrow> string \<Rightarrow> 'b \<Rightarrow> (thrown + unit) \<times> 'b"

text \<open>
  Each handler returns one text block; the model returns its text.  None of the
  handlers has a \<^verbatim>\<open>try\<close>: what the browser raises leaves the handler.
\<close>

definition browser_snapshot ::
  "('b, 'l, 'p) browser_api \<Rightarrow> bool option \<Rightarrow> 'b \<Rightarrow> (thrown + string) \<times> 'b" where
  "browser_snapshot browser fullPage s =
    (case getSnapshot browser (\<not> (case fullPage of None \<Rightarrow> False | Some b \<Rightarrow> b)) s of
       (Inl e, s') \<Rightarrow> (Inl e, s')
     | (Inr tree, s') \<Rightarrow> (Inr tree, s'))"

definition browser_click ::
  "('b, 'l, 'p) browser_api \<Rightarrow> string \<Rightarrow> 'b \<Rightarrow> (thrown + string) \<times> 'b" where
  "browser_click browser target s =
    (case getLocator browser target s of
       (Inl e, s1) \<Rightarrow> (Inl e, s1)
     | (Inr locator, s1) \<Rightarrow>
         (case locator_click browser locator s1 of
            (Inl e, s2) \<Rightarrow> (Inl e, s2)
          | (Inr u, s2) \<Rightarrow> (Inr (''Clicked '' @ target), s2)))"

text \<open>The \<^verbatim>\<open>switch (args.direction)\<close> of the scroll handler: \<open>(deltaX, deltaY)\<close>.\<close>

fun scroll_delta :: "direction \<Rightarrow> int \<Rightarrow> int \<times> int" where
  "scroll_delta Up amount = (0, - amount)"
| "scroll_delta Down amount = (0, amount)"
| "scroll_delta Left amount = (- amount, 0)"
| "scroll_delta Right amount = (amount, 0)"

text \<open>\<^verbatim>\<open>args.amount || 500\<close> on an optional number.\<close>

definition amount_or_default :: "int option \<Rightarrow> int" where
  "amount_or_default amount =
    (case amount of None \<Rightarrow> 500 | Some a \<Rightarrow> if a \<noteq> 0 then a else 500)"

definition scrollBy_script :: "int \<times> int \<Rightarrow> string" where
  "scrollBy_script d =
    ''window.scrollBy('' @ show_int (fst d) @ '', '' @ show_int (snd d) @ '')''"

definition browser_scroll ::
  "('b, 'l, 'p) browser_api \<Rightarrow> direction \<Rightarrow> int option \<Rightarrow> 'b \<Rightarrow> (thrown + string) \<times> 'b" where
  "browser_scroll browser dir amount_arg s =
    (case getPage browser s of
       (Inl e, s1) \<Rightarrow> (Inl e, s1)
     | (Inr page, s1) \<Rightarrow>
         (let amount = amount_or_default amount_arg in
          case page_evaluate browser page (scrollBy_script (scroll_delta dir amount)) s1 of
            (Inl e, s2) \<Rightarrow> (Inl e, s2)
          | (Inr u, s2) \<Rightarrow>
              (Inr (''Scrolled '' @ direction_name dir @ '' '' @ show_int amount @ ''px''),
               s2)))"

text \<open>
  The messages of the stream that \<^verbatim>\<open>execute\<close> looks at: assistant messages, the
  two kinds of result message (\<^verbatim>\<open>errors\<close> may be absent from the second), and
  every other type, which it skips.
\<close>

datatype sdk_message =
    Assistant_message "content_block list"
  | Result_success string int
  | Result_error "string list option" int
  | Other_message

text \<open>
  The stream itself: it ends, or iterating it raises, or it yields a message and
  goes on.  A call of \<^verbatim>\<open>query\<close> that raises at once is a stream that raises at once.
\<close>

datatype message_stream =
    Stream_end
  | Stream_raise thrown
  | Stream_message sdk_message message_stream

record query_params =
  prompt :: string
  opt_model :: string
  opt_maxTurns :: int

type_synonym 'm query_fn = "query_params \<Rightarrow> 'm \<Rightarrow> message_stream \<times> 'm"

text \<open>\<^verbatim>\<open>content.filter(block => block.type === 'text').map(b => b.text)\<close>\<close>

fun textBlocks :: "content_block list \<Rightarrow> string list" where
  "textBlocks [] = []"
| "textBlocks (Text_block t # bs) = t # textBlocks bs"
| "textBlocks (Tool_use_block u # bs) = textBlocks bs"

text \<open>\<^verbatim>\<open>xs.join(sep)\<close>\<close>

fun join :: "string \<Rightarrow> string list \<Rightarrow> string" where
  "join sep [] = []"
| "join sep [x] = x"
| "join sep (x # y # ys) = x @ sep @ join sep (y # ys)"

text \<open>
  The \<^verbatim>\<open>for await\<close> loop with the \<^verbatim>\<open>return\<close> after it.  When the stream raises,
  the value of \<^verbatim>\<open>turns\<close> at that moment is handed to the \<^verbatim>\<open>catch\<close>.
\<close>

fun process_stream :: "message_stream \<Rightarrow> int \<Rightarrow> string \<Rightarrow> (thrown \<times> int) + agent_result" where
  "process_stream Stream_end n lastAssistantMessage =
     Inr \<lparr>success = Bool True,
          summary = js_or (Str lastAssistantMessage) (Str ''Completed''),
          turns = n\<rparr>"
| "process_stream (Stream_raise e) n lastAssistantMessage = Inl (e, n)"
| "process_stream (Stream_message (Assistant_message content) rest) n lastAssistantMessage =
     process_stream rest (n + 1)
       (if textBlocks content \<noteq> [] then join [CHR 0x0A] (textBlocks content)
        else lastAssistantMessage)"
| "process_stream (Stream_message (Result_success result num_turns) rest) n lastAssistantMessage =
     Inr \<lparr>success = Bool True,
          summary = js_or (js_or (Str result) (Str lastAssistantMessage)) (Str ''Completed''),
          turns = num_turns\<rparr>"
| "process_stream (Stream_message (Result_error errors num_turns) rest) n lastAssistantMessage =
     Inr \<lparr>success = Bool False,
          summary = Str (case errors of Some es \<Rightarrow> join '', '' es | None \<Rightarrow> ''Unknown error''),
          turns = num_turns\<rparr>"
| "process_stream (Stream_message Other_message rest) n lastAssistantMessage =
     process_stream rest n lastAssistantMessage"

text \<open>
  \<^verbatim>\<open>execute\<close> of \<^verbatim>\<open>browser-agent.ts\<close>: one call of \<^verbatim>\<open>query\<close>, the loop over
  its stream, and the \<^verbatim>\<open>catch\<close> around both.  Building the tool list and the
  in-process server happens before the \<^verbatim>\<open>try\<close> and is taken not to raise.
\<close>

definition execute_sdk ::
  "agent_config \<Rightarrow> 'm query_fn \<Rightarrow> string \<Rightarrow> 'm \<Rightarrow> (thrown + agent_result) \<times> 'm" where
  "execute_sdk config query instruction m =
    (case query \<lparr>prompt = instruction, opt_model = model config,
                  opt_maxTurns = maxTurns config\<rparr> m of
       (stream, m') \<Rightarrow>
         (case process_stream stream 0 [] of
            Inl (error, n) \<Rightarrow>
              (Inr \<lparr>success = Bool False,
                    summary = Str (''Error: '' @ error_message error),
                    turns = n\<rparr>, m')
          | Inr result \<Rightarrow> (Inr result, m')))"

section \<open>Observing the external services\<close>

text \<open>
  Invocations are counted from outside: a service is wrapped so that its state carries
  the number of calls made so far.  The agent's code is run unchanged on the wrapped
  service.
\<close>

definition counting :: "('r \<Rightarrow> 'm \<Rightarrow> 'a \<times> 'm) \<Rightarrow> 'r \<Rightarrow> 'm \<times> nat \<Rightarrow> 'a \<times> ('m \<times> nat)" where
  "counting service request st =
    (case service request (fst st) of (a, m') \<Rightarrow> (a, (m', Suc (snd st))))"

text \<open>
  A run in which the model gives no terminal signal during the next \<open>k\<close> turns: each
  of its next \<open>k\<close> answers, in the conversation that the loop builds from the tool
  results, comes back without raising and holds at least one tool request and none
  named \<^verbatim>\<open>done\<close>.
\<close>

fun tool_results_of :: "tools_outcome \<Rightarrow> tool_result list" where
  "tool_results_of (Tool_results rs) = rs"
| "tool_results_of out = []"

fun turns_without_signal ::
  "nat \<Rightarrow> agent_config \<Rightarrow> 'm messages_create \<Rightarrow> 'b browser_manager \<Rightarrow> message list
     \<Rightarrow> 'm \<Rightarrow> 'b \<Rightarrow> bool" where
  "turns_without_signal 0 config create browser messages m s = True"
| "turns_without_signal (Suc k) config create browser messages m s =
    (case create \<lparr>req_model = model config, req_max_tokens = 4096,
                   req_tools = tools, req_messages = messages\<rparr> m of
       (Inl e, m') \<Rightarrow> False
     | (Inr content, m') \<Rightarrow>
         toolUses content \<noteq> [] \<and>
         (\<forall>u \<in> set (toolUses content). tool_name u \<noteq> ''done'') \<and>
         (case run_tools browser (toolUses content) [] s of
            (out, s') \<Rightarrow>
              turns_without_signal k config create browser
                (messages @ [Assistant_content content, User_results (tool_results_of out)])
                m' s'))"

section \<open>Observations and the last assistant text\<close>

text \<open>
  The observation of one tool request: the text of the action when it succeeds, and
  \<^verbatim>\<open>Error: \<close> followed by the message of what was raised when it does not.  The
  observations of a batch are those of its requests, taken in order, each on the
  browser state that the one before it left, and each under the id of its request.
\<close>

definition observation :: "'b browser_manager \<Rightarrow> tool_use \<Rightarrow> 'b \<Rightarrow> string \<times> 'b" where
  "observation browser u s =
    (case executeTool_try browser (tool_name u) (tool_input u) s of
       (Inl e, s') \<Rightarrow> (''Error: '' @ error_message e, s')
     | (Inr t, s') \<Rightarrow> (t, s'))"

fun observations :: "'b browser_manager \<Rightarrow> tool_use list \<Rightarrow> 'b \<Rightarrow> tool_result list \<times> 'b" where
  "observations browser [] s = ([], s)"
| "observations browser (u # us) s =
    (case observation browser u s of
       (obs, s1) \<Rightarrow>
         (case observations browser us s1 of
            (rs, s2) \<Rightarrow> (\<lparr>tool_use_id = tool_id u, result_content = obs\<rparr> # rs, s2)))"

text \<open>
  The text that \<^verbatim>\<open>lastAssistantMessage\<close> holds after a list of messages: the text
  blocks, joined by newlines, of the last assistant message among them that has a text
  block, and the initial value when there is none.
\<close>

fun assistant_texts :: "sdk_message list \<Rightarrow> string list" where
  "assistant_texts [] = []"
| "assistant_texts (Assistant_message content # xs) =
    (if textBlocks content \<noteq> [] then join [CHR 0x0A] (textBlocks content) # assistant_texts xs
     else assistant_texts xs)"
| "assistant_texts (x # xs) = assistant_texts xs"

definition last_text :: "string \<Rightarrow> sdk_message list \<Rightarrow> string" where
  "last_text init msgs =
    (if assistant_texts msgs = [] then init else last (assistant_texts msgs))"

section \<open>Concrete services for running the code\<close>

text \<open>
  A browser whose state is the log of the calls it has received.  Clicking, filling or
  typing into the target \<^verbatim>\<open>@bad\<close> raises; every other call succeeds.
\<close>

definition unresolved :: thrown where
  "unresolved = Error_object ''No element matches @bad''"

definition recording_browser :: "string list browser_manager" where
  "recording_browser =
    \<lparr>snapshot = (\<lambda>interactive log.
        (Inr (if interactive then ''- button Submit [ref=e1]''
              else ''- heading Welcome - button Submit [ref=e1]''),
         log @ [''snapshot''])),
     click = (\<lambda>target log.
        if target = Str ''@bad'' then (Inl unresolved, log)
        else (Inr (), log @ [''click '' @ to_string target])),
     fill = (\<lambda>target v log.
        if target = Str ''@bad'' then (Inl unresolved, log)
        else (Inr (), log @ [''fill '' @ to_string target])),
     type_text = (\<lambda>target v log.
        if target = Str ''@bad'' then (Inl unresolved, log)
        else (Inr (), log @ [''type '' @ to_string target])),
     press = (\<lambda>k log. (Inr (), log @ [''press '' @ to_string k])),
     scroll = (\<lambda>d a log. (Inr (), log @ [''scroll '' @ to_string d @ '' '' @ to_string a])),
     waitForSelector = (\<lambda>sel log. (Inr (), log @ [''wait '' @ to_string sel]))\<rparr>"

text \<open>The same for the interface of \<^verbatim>\<open>browser-agent.ts\<close>; the log keeps the scripts.\<close>

definition recording_api :: "(string list, string, unit) browser_api" where
  "recording_api =
    \<lparr>getSnapshot = (\<lambda>interactive log.
        (Inr (if interactive then ''- button Submit [ref=e1]''
              else ''- heading Welcome - button Submit [ref=e1]''),
         log @ [''snapshot''])),
     getLocator = (\<lambda>target log.
        if target = ''@bad'' then (Inl unresolved, log) else (Inr target, log)),
     locator_click = (\<lambda>locator log. (Inr (), log @ [''click '' @ locator])),
     getPage = (\<lambda>log. (Inr (), log)),
     page_evaluate = (\<lambda>page script log. (Inr (), log @ [script]))\<rparr>"

text \<open>
  A model service that plays a fixed script: its state is the number of requests it has
  answered, and once the script is used up it answers with an empty response.
\<close>

definition scripted :: "(thrown + content_block list) list \<Rightarrow> nat messages_create" where
  "scripted script request k = ((if k < length script then script ! k else Inr []), Suc k)"

text \<open>An SDK whose \<^verbatim>\<open>query\<close> yields a fixed stream.\<close>

definition fixed_stream :: "message_stream \<Rightarrow> unit query_fn" where
  "fixed_stream stream params m = (stream, m)"

text \<open>A stream given by the messages it yields before it ends or raises.\<close>

fun yielding :: "sdk_message list \<Rightarrow> message_stream \<Rightarrow> message_stream" where
  "yielding [] rest = rest"
| "yielding (x # xs) rest = Stream_message x (yielding xs rest)"

fun is_result :: "sdk_message \<Rightarrow> bool" where
  "is_result (Result_success r k) = True"
| "is_result (Result_error es k) = True"
| "is_result x = False"

fun is_assistant :: "sdk_message \<Rightarrow> bool" where
  "is_assistant (Assistant_message content) = True"
| "is_assistant x = False"

text \<open>Tool requests used in the examples.\<close>

definition tool_request :: "string \<Rightarrow> string \<Rightarrow> (string \<times> jsval) list \<Rightarrow> content_block" where
  "tool_request i name args =
     Tool_use_block \<lparr>tool_id = i, tool_name = name, tool_input = map_of args\<rparr>"

text \<open>
  A model service that reads the conversation: when the last message holds tool
  results it answers with their texts as free text, and otherwise it asks to fill the
  target \<^verbatim>\<open>@bad\<close>.
\<close>

definition reporting :: "nat messages_create" where
  "reporting request k =
    ((case rev (req_messages request) of
        User_results rs # earlier \<Rightarrow> Inr [Text_block (concat (map result_content rs))]
      | other \<Rightarrow>
          Inr [tool_request ''t1'' ''fill'' [(''target'', Str ''@bad''), (''value'', Str ''x'')]]),
     Suc k)"

definition test_config :: agent_config where
  "test_config = \<lparr>model = ''sonnet'', maxTurns = 3, timeout = 120000\<rparr>"

section \<open>Evaluation and step lemmas\<close>

text \<open>
  Unfolding sets for the concrete services, and the decimal renderings that the
  examples need.
\<close>

lemmas fixture_defs = recording_browser_def recording_api_def scripted_def
  fixed_stream_def tool_request_def test_config_def unresolved_def field_def tools_def

lemmas tool_defs = executeTool_def executeTool_try_def call_then_def js_or_def

lemma show_int_0: "show_int 0 = ''0''"
  by (simp add: show_int_def show_nat.simps digit_char_def)

lemma show_int_3: "show_int 3 = ''3''"
  by (simp add: show_int_def show_nat.simps digit_char_def)

lemma show_int_500: "show_int 500 = ''500''"
  by (simp add: show_int_def show_nat.simps digit_char_def)

lemma show_int_neg500: "show_int (- 500) = ''-500''"
  by (simp add: show_int_def show_nat.simps digit_char_def)

text \<open>
  What the dispatcher returns for a snapshot, in both versions: the text that the
  browser gave, and nothing of its own.
\<close>

lemma executeTool_snapshot:
  "fst (executeTool browser ''snapshot'' args b) =
     (case fst (snapshot browser (\<not> truthy (field args ''fullPage'')) b) of
        Inl e \<Rightarrow> Inr (''Error: '' @ error_message e) | Inr tree \<Rightarrow> Inr tree)"
  by (simp add: executeTool_def executeTool_try_def split: prod.splits sum.splits)

lemma browser_snapshot_fst:
  "fst (browser_snapshot api fullPage s) =
     fst (getSnapshot api (\<not> (case fullPage of None \<Rightarrow> False | Some b \<Rightarrow> b)) s)"
  by (simp add: browser_snapshot_def split: prod.splits sum.splits)

text \<open>
  The \<^verbatim>\<open>catch\<close> of \<^verbatim>\<open>executeTool\<close> leaves no way out by an exception, so the loop
  over a batch of tool requests never ends by one either.
\<close>

lemma executeTool_returns: "\<exists>text s'. executeTool browser name args s = (Inr text, s')"
  by (cases "executeTool_try browser name args s")
     (auto simp: executeTool_def split: sum.splits)

lemma executeTool_catch:
  "executeTool_try browser name args s = (Inl e, s') \<Longrightarrow>
   executeTool browser name args s = (Inr (''Error: '' @ error_message e), s')"
  by (simp add: executeTool_def)

lemma run_tools_no_done:
  "\<forall>u \<in> set us. tool_name u \<noteq> ''done'' \<Longrightarrow>
   \<exists>rs s'. run_tools browser us acc s = (Tool_results rs, s') \<and>
            map tool_use_id rs = map tool_use_id acc @ map tool_id us"
proof (induction us arbitrary: acc s)
  case Nil
  then show ?case by simp
next
  case (Cons u us)
  obtain out s1 where ex: "executeTool browser (tool_name u) (tool_input u) s = (Inr out, s1)"
    using executeTool_returns [of browser "tool_name u" "tool_input u" s] by auto
  from Cons.prems have rest: "\<forall>u \<in> set us. tool_name u \<noteq> ''done''" by simp
  from Cons.IH [OF rest, of "acc @ [\<lparr>tool_use_id = tool_id u, result_content = out\<rparr>]" s1]
  obtain rs s' where
    "run_tools browser us (acc @ [\<lparr>tool_use_id = tool_id u, result_content = out\<rparr>]) s1
       = (Tool_results rs, s')"
    "map tool_use_id rs
       = map tool_use_id (acc @ [\<lparr>tool_use_id = tool_id u, result_content = out\<rparr>])
         @ map tool_id us"
    by blast
  with Cons.prems ex show ?case by simp
qed

lemma run_tools_never_raises: "run_tools browser us acc s \<noteq> (Tool_raised e, s')"
proof (induction us arbitrary: acc s)
  case Nil
  then show ?case by simp
next
  case (Cons u us)
  obtain out s1 where "executeTool browser (tool_name u) (tool_input u) s = (Inr out, s1)"
    using executeTool_returns [of browser "tool_name u" "tool_input u" s] by auto
  with Cons.IH show ?case by simp
qed

lemma run_tools_done:
  "\<forall>u \<in> set before. tool_name u \<noteq> ''done'' \<Longrightarrow> tool_name d = ''done'' \<Longrightarrow>
   run_tools browser before acc s = (Tool_results rs, s') \<Longrightarrow>
   run_tools browser (before @ d # after) acc s =
     (Done_signal (field (tool_input d) ''success'') (field (tool_input d) ''summary''), s')"
proof (induction before arbitrary: acc s)
  case Nil
  then show ?case by simp
next
  case (Cons u us)
  obtain out s1 where ex: "executeTool browser (tool_name u) (tool_input u) s = (Inr out, s1)"
    using executeTool_returns [of browser "tool_name u" "tool_input u" s] by auto
  with Cons show ?case by simp
qed

text \<open>
  One iteration of the \<^verbatim>\<open>while\<close> loop, by the way it leaves the loop body.
\<close>

lemma execute_loop_budget:
  "\<not> n < maxTurns config \<Longrightarrow>
   execute_loop config create browser n messages m s =
     (Inr \<lparr>success = Bool False,
           summary = Str (''Task incomplete after '' @ show_int (maxTurns config) @ '' turns''),
           turns = n\<rparr>, m, s)"
  by (subst execute_loop.simps) simp

lemma execute_loop_raise:
  "n < maxTurns config \<Longrightarrow>
   create \<lparr>req_model = model config, req_max_tokens = 4096, req_tools = tools,
           req_messages = messages\<rparr> m = (Inl e, m') \<Longrightarrow>
   execute_loop config create browser n messages m s = (Inl e, m', s)"
  by (subst execute_loop.simps) simp

lemma execute_loop_text:
  "n < maxTurns config \<Longrightarrow>
   create \<lparr>req_model = model config, req_max_tokens = 4096, req_tools = tools,
           req_messages = messages\<rparr> m = (Inr content, m') \<Longrightarrow>
   toolUses content = [] \<Longrightarrow>
   execute_loop config create browser n messages m s =
     (Inr \<lparr>success = Bool True,
           summary = js_or (textBlock_text content) (Str ''Completed''),
           turns = n + 1\<rparr>, m', s)"
  by (subst execute_loop.simps) simp

lemma execute_loop_done:
  "n < maxTurns config \<Longrightarrow>
   create \<lparr>req_model = model config, req_max_tokens = 4096, req_tools = tools,
           req_messages = messages\<rparr> m = (Inr content, m') \<Longrightarrow>
   toolUses content \<noteq> [] \<Longrightarrow>
   run_tools browser (toolUses content) [] s = (Done_signal a b, s') \<Longrightarrow>
   execute_loop config create browser n messages m s =
     (Inr \<lparr>success = a, summary = b, turns = n + 1\<rparr>, m', s')"
  by (subst execute_loop.simps) simp

lemma execute_loop_continue:
  "n < maxTurns config \<Longrightarrow>
   create \<lparr>req_model = model config, req_max_tokens = 4096, req_tools = tools,
           req_messages = messages\<rparr> m = (Inr content, m') \<Longrightarrow>
   toolUses content \<noteq> [] \<Longrightarrow>
   run_tools browser (toolUses content) [] s = (Tool_results rs, s') \<Longrightarrow>
   execute_loop config create browser n messages m s =
     execute_loop config create browser (n + 1)
       (messages @ [Assistant_content content, User_results rs]) m' s'"
  by (subst execute_loop.simps) simp

lemma summary_of_text:
  "js_or (textBlock_text content) (Str ''Completed'') =
     Str (case textBlocks content of [] \<Rightarrow> ''Completed''
          | t # ts \<Rightarrow> if t = [] then ''Completed'' else t)"
  by (induction content rule: textBlocks.induct) (simp_all add: js_or_def)

lemma execute_loop_turns:
  "n \<le> maxTurns config \<Longrightarrow>
   execute_loop config create browser n messages m s = (Inr r, m', s') \<Longrightarrow>
   n \<le> turns r \<and> turns r \<le> maxTurns config"
proof (induction "nat (maxTurns config - n)" arbitrary: n messages m s)
  case 0
  then have "\<not> n < maxTurns config" by simp
  from execute_loop_budget [OF this, of create browser messages m s] 0
  have "turns r = n" by auto
  with 0 show ?case by simp
next
  case (Suc k)
  then have below: "n < maxTurns config" by simp
  obtain x m1 where resp:
    "create \<lparr>req_model = model config, req_max_tokens = 4096, req_tools = tools,
             req_messages = messages\<rparr> m = (x, m1)"
    by (cases "create \<lparr>req_model = model config, req_max_tokens = 4096, req_tools = tools,
             req_messages = messages\<rparr> m") auto
  show ?case
  proof (cases x)
    case (Inl e)
    with execute_loop_raise [where create = create and m = m, OF below, of messages e m1 browser s]
      resp Suc.prems
    show ?thesis by simp
  next
    case (Inr content)
    note resp' = resp [unfolded Inr]
    show ?thesis
    proof (cases "toolUses content = []")
      case True
      from execute_loop_text [where create = create and m = m, OF below resp' True, of browser s]
        Suc.prems
      have "turns r = n + 1" by auto
      with below show ?thesis by simp
    next
      case False
      obtain out s1 where run: "run_tools browser (toolUses content) [] s = (out, s1)"
        by (cases "run_tools browser (toolUses content) [] s") auto
      show ?thesis
      proof (cases out)
        case (Done_signal a b)
        from execute_loop_done [where create = create and m = m,
            OF below resp' False run [unfolded Done_signal]] Suc.prems
        have "turns r = n + 1" by auto
        with below show ?thesis by simp
      next
        case (Tool_raised e)
        with run run_tools_never_raises [of browser "toolUses content" "[]" s e s1]
        show ?thesis by simp
      next
        case (Tool_results rs)
        from execute_loop_continue [where create = create and m = m,
            OF below resp' False run [unfolded Tool_results]] Suc.prems
        have next_turn: "execute_loop config create browser (n + 1)
            (messages @ [Assistant_content content, User_results rs]) m1 s1 = (Inr r, m', s')"
          by simp
        have "k = nat (maxTurns config - (n + 1))"
          using Suc.hyps(2) by simp
        from Suc.hyps(1) [OF this _ next_turn] below
        show ?thesis by simp
      qed
    qed
  qed
qed

lemma counting_create:
  "create request m = (x, m') \<Longrightarrow> counting create request (m, c) = (x, (m', Suc c))"
  by (simp add: counting_def)

lemma execute_loop_exhausts:
  "k = nat (maxTurns config - n) \<Longrightarrow> n \<le> maxTurns config \<Longrightarrow>
   turns_without_signal k config create browser messages m s \<Longrightarrow>
    \<exists>m' s'. execute_loop config (counting create) browser n messages (m, c) s =
      (Inr \<lparr>success = Bool False,
            summary = Str (''Task incomplete after '' @ show_int (maxTurns config) @ '' turns''),
            turns = maxTurns config\<rparr>,
       (m', c + k), s')"
proof (induction k arbitrary: n messages m c s)
  case 0
  then have "\<not> n < maxTurns config" and "n = maxTurns config" by simp_all
  with execute_loop_budget [of n config "counting create" browser messages "(m, c)" s]
  show ?case by simp
next
  case (Suc k)
  then have below: "n < maxTurns config" by simp
  let ?req = "\<lparr>req_model = model config, req_max_tokens = 4096, req_tools = tools,
             req_messages = messages\<rparr>"
  obtain x m1 where resp0: "create ?req m = (x, m1)"
    by (cases "create ?req m") auto
  with Suc.prems(3) obtain content where x: "x = Inr content"
    by (cases x) auto
  note resp = resp0 [unfolded x]
  obtain out s1 where run0: "run_tools browser (toolUses content) [] s = (out, s1)"
    by (cases "run_tools browser (toolUses content) [] s") auto
  from Suc.prems(3) resp run0 have
    some: "toolUses content \<noteq> []" and
    no_done: "\<forall>u \<in> set (toolUses content). tool_name u \<noteq> ''done''" and
    rest: "turns_without_signal k config create browser
        (messages @ [Assistant_content content, User_results (tool_results_of out)]) m1 s1"
    by simp_all
  from run_tools_no_done [OF no_done, of browser "[]" s] run0
  obtain rs where out: "out = Tool_results rs"
    by auto
  note run = run0 [unfolded out]
  have step: "execute_loop config (counting create) browser n messages (m, c) s =
      execute_loop config (counting create) browser (n + 1)
        (messages @ [Assistant_content content, User_results rs]) (m1, Suc c) s1"
    using execute_loop_continue [where create = "counting create" and m = "(m, c)",
        OF below counting_create [where create = create and m = m, OF resp] some run] .
  have k: "k = nat (maxTurns config - (n + 1))"
    using Suc.prems(1) by simp
  from below have le: "n + 1 \<le> maxTurns config" by simp
  from rest out have rest': "turns_without_signal k config create browser
        (messages @ [Assistant_content content, User_results rs]) m1 s1"
    by simp
  from Suc.IH [OF k le rest', of "Suc c"]
  obtain m' s' where
    "execute_loop config (counting create) browser (n + 1)
        (messages @ [Assistant_content content, User_results rs]) (m1, Suc c) s1 =
      (Inr \<lparr>success = Bool False,
            summary = Str (''Task incomplete after '' @ show_int (maxTurns config) @ '' turns''),
            turns = maxTurns config\<rparr>,
       (m', Suc c + k), s')"
    by blast
  with step show ?case by auto
qed

text \<open>
  The loop over the stream, up to the first result message, the end or an exception:
  it counts the assistant messages and keeps the last assistant text.
\<close>

lemma last_text_Nil: "last_text init [] = init"
  by (simp add: last_text_def)

lemma last_text_assistant:
  "last_text init (Assistant_message content # xs) =
     last_text (if textBlocks content \<noteq> [] then join [CHR 0x0A] (textBlocks content) else init) xs"
  by (simp add: last_text_def)

lemma last_text_other:
  "\<not> is_assistant x \<Longrightarrow> last_text init (x # xs) = last_text init xs"
  by (cases x) (simp_all add: last_text_def)

lemma process_stream_yielding:
  "\<forall>x \<in> set msgs. \<not> is_result x \<Longrightarrow>
   process_stream (yielding msgs rest) n init =
     process_stream rest (n + int (length (filter is_assistant msgs))) (last_text init msgs)"
proof (induction msgs arbitrary: n init)
  case Nil
  then show ?case by (simp add: last_text_Nil)
next
  case (Cons x xs)
  then have rest: "\<forall>x \<in> set xs. \<not> is_result x" and x: "\<not> is_result x"
    by simp_all
  show ?case
  proof (cases x)
    case (Assistant_message content)
    then show ?thesis
      using Cons.IH [OF rest] by (simp add: last_text_assistant add.assoc)
  next
    case (Result_success r k)
    with x show ?thesis by simp
  next
    case (Result_error es k)
    with x show ?thesis by simp
  next
    case Other_message
    then show ?thesis
      using Cons.IH [OF rest] by (simp add: last_text_other)
  qed
qed

lemma show_int_neg1: "show_int (- 1) = ''-1''"
  by (simp add: show_int_def show_nat.simps digit_char_def)

text \<open>
  Without a \<^verbatim>\<open>done\<close> request, the loop over a batch collects its observations.
\<close>

lemma executeTool_observation:
  "executeTool browser (tool_name u) (tool_input u) s =
     (Inr (fst (observation browser u s)), snd (observation browser u s))"
  by (simp add: executeTool_def observation_def split: prod.splits sum.splits)

lemma run_tools_observations:
  "\<forall>u \<in> set us. tool_name u \<noteq> ''done'' \<Longrightarrow>
   run_tools browser us acc s =
     (Tool_results (acc @ fst (observations browser us s)), snd (observations browser us s))"
proof (induction us arbitrary: acc s)
  case Nil
  then show ?case by simp
next
  case (Cons u us)
  then have rest: "\<forall>u \<in> set us. tool_name u \<noteq> ''done''" and u: "tool_name u \<noteq> ''done''"
    by simp_all
  show ?case
    using u Cons.IH [OF rest]
    by (simp add: executeTool_observation split: prod.splits)
qed

text \<open>
  The two versions differ in who catches a failure of the model service.  The loop of
  the plan lets it leave \<^verbatim>\<open>execute\<close>, and the \<^verbatim>\<open>do\<close> command handler catches
  it; the handlers registered with the SDK let a browser error leave the handler, and
  the SDK's tool server receives it.
\<close>

lemma execute_propagates_model_failure:
  "0 < maxTurns config \<Longrightarrow>
   create \<lparr>req_model = model config, req_max_tokens = 4096, req_tools = tools,
           req_messages = [User_text instruction]\<rparr> m = (Inl e, m') \<Longrightarrow>
   execute config create browser instruction m s = (Inl e, m', s)"
  unfolding execute_def by (rule execute_loop_raise)

lemma do_command_catches:
  "i \<noteq> [] \<Longrightarrow>
   execute (merge_config DEFAULT_CONFIG config) create browser i m s = (Inl e, m', s') \<Longrightarrow>
   do_command create browser (Str i) config m s = (Do_error (error_message e), m', s')"
  by (simp add: do_command_def)

lemma browser_click_propagates:
  "getLocator api target s = (Inr locator, s') \<Longrightarrow>
   locator_click api locator s' = (Inl e, s'') \<Longrightarrow>
   browser_click api target s = (Inl e, s'')"
  by (simp add: browser_click_def)

text \<open>
  For an amount that is absent or not zero, the scroll handler evaluates
  \<^verbatim>\<open>window.scrollBy\<close> with the signed delta of the direction and names the
  direction and the amount.
\<close>

lemma browser_scroll_signed_delta:
  assumes "amount_arg \<noteq> Some 0"
    and "getPage api s = (Inr page, s')"
    and "page_evaluate api page
           (scrollBy_script (scroll_delta dir (case amount_arg of None \<Rightarrow> 500 | Some a \<Rightarrow> a))) s'
         = (Inr (), s'')"
  shows "browser_scroll api dir amount_arg s =
     (Inr (''Scrolled '' @ direction_name dir @ '' ''
           @ show_int (case amount_arg of None \<Rightarrow> 500 | Some a \<Rightarrow> a) @ ''px''), s'')"
  using assms by (cases amount_arg) (simp_all add: browser_scroll_def amount_or_default_def)

text \<open>An amount of 0 is read as no amount at all.\<close>

lemma amount_or_default_zero: "amount_or_default (Some 0) = amount_or_default None"
  by (simp add: amount_or_default_def)

lemma executeTool_try_scroll_zero:
  "executeTool_try browser ''scroll'' (args(''amount'' \<mapsto> Num 0)) b
     = executeTool_try browser ''scroll'' (args(''amount'' := None)) b"
  by (simp add: executeTool_try_def js_or_def field_def)

section \<open>The dispatcher\<close>

text \<open>
  Claim C1, as the code has it.  Whatever the browser raises while \<^verbatim>\<open>executeTool\<close>
  runs a tool request is caught there: \<^verbatim>\<open>executeTool\<close> always returns a text, never
  an exception, and when its \<^verbatim>\<open>try\<close> block raised \<open>e\<close>, in particular when the
  browser method called for a snapshot, click, fill, type, press, scroll or wait on a
  selector raised \<open>e\<close>, the text is exactly \<^verbatim>\<open>Error: \<close> followed by the message of
  \<open>e\<close>.  For a batch of tool requests without \<^verbatim>\<open>done\<close>, on a turn below the budget,
  the loop collects the observations of the batch in order and goes on to the next turn
  with the model's answer and these observations appended to the conversation.  The
  click handler of \<^verbatim>\<open>src/browser-agent.ts\<close> has no \<^verbatim>\<open>catch\<close>: what the browser
  raises while resolving or clicking the target leaves the handler.
\<close>

theorem dispatcher_catches_errors:
  "(\<exists>obs b'. executeTool browser name args b = (Inr obs, b')) \<and>
   (\<forall>e b'. executeTool_try browser name args b = (Inl e, b') \<longrightarrow>
      executeTool browser name args b = (Inr (''Error: '' @ error_message e), b')) \<and>
   (\<forall>e b'. click browser (field args ''target'') b = (Inl e, b') \<longrightarrow>
      executeTool browser ''click'' args b = (Inr (''Error: '' @ error_message e), b')) \<and>
   (\<forall>e b'. snapshot browser (\<not> truthy (field args ''fullPage'')) b = (Inl e, b') \<longrightarrow>
      executeTool browser ''snapshot'' args b = (Inr (''Error: '' @ error_message e), b')) \<and>
   (\<forall>e b'. fill browser (field args ''target'') (field args ''value'') b = (Inl e, b') \<longrightarrow>
      executeTool browser ''fill'' args b = (Inr (''Error: '' @ error_message e), b')) \<and>
   (\<forall>e b'. type_text browser (field args ''target'') (field args ''text'') b = (Inl e, b') \<longrightarrow>
      executeTool browser ''type'' args b = (Inr (''Error: '' @ error_message e), b')) \<and>
   (\<forall>e b'. press browser (field args ''key'') b = (Inl e, b') \<longrightarrow>
      executeTool browser ''press'' args b = (Inr (''Error: '' @ error_message e), b')) \<and>
   (\<forall>e b'. scroll browser (field args ''direction'') (js_or (field args ''amount'') (Num 500)) b
        = (Inl e, b') \<longrightarrow>
      executeTool browser ''scroll'' args b = (Inr (''Error: '' @ error_message e), b')) \<and>
   (\<forall>e b'. \<not> truthy (field args ''ms'') \<longrightarrow> truthy (field args ''selector'') \<longrightarrow>
      waitForSelector browser (field args ''selector'') b = (Inl e, b') \<longrightarrow>
      executeTool browser ''wait'' args b = (Inr (''Error: '' @ error_message e), b')) \<and>
   (n < maxTurns config \<longrightarrow>
    create \<lparr>req_model = model config, req_max_tokens = 4096, req_tools = tools,
            req_messages = messages\<rparr> m = (Inr content, m') \<longrightarrow>
    toolUses content \<noteq> [] \<longrightarrow>
    (\<forall>u \<in> set (toolUses content). tool_name u \<noteq> ''done'') \<longrightarrow>
    run_tools browser (toolUses content) [] s =
      (Tool_results (fst (observations browser (toolUses content) s)),
       snd (observations browser (toolUses content) s)) \<and>
    execute_loop config create browser n messages m s =
      execute_loop config create browser (n + 1)
        (messages @ [Assistant_content content,
                     User_results (fst (observations browser (toolUses content) s))])
        m' (snd (observations browser (toolUses content) s))) \<and>
   (\<forall>e p'. getLocator api target p = (Inl e, p') \<longrightarrow>
      browser_click api target p = (Inl e, p')) \<and>
   (\<forall>locator e p' p''. getLocator api target p = (Inr locator, p') \<longrightarrow>
      locator_click api locator p' = (Inl e, p'') \<longrightarrow>
      browser_click api target p = (Inl e, p''))"
proof (intro conjI)
  show "\<forall>e p'. getLocator api target p = (Inl e, p') \<longrightarrow>
      browser_click api target p = (Inl e, p')"
    by (simp add: browser_click_def)
  show "\<forall>locator e p' p''. getLocator api target p = (Inr locator, p') \<longrightarrow>
      locator_click api locator p' = (Inl e, p'') \<longrightarrow>
      browser_click api target p = (Inl e, p'')"
    by (simp add: browser_click_def)
  show "\<exists>obs b'. executeTool browser name args b = (Inr obs, b')"
    by (rule executeTool_returns)
  show "\<forall>e b'. executeTool_try browser name args b = (Inl e, b') \<longrightarrow>
      executeTool browser name args b = (Inr (''Error: '' @ error_message e), b')"
    by (simp add: executeTool_def)
  show "\<forall>e b'. click browser (field args ''target'') b = (Inl e, b') \<longrightarrow>
      executeTool browser ''click'' args b = (Inr (''Error: '' @ error_message e), b')"
    by (simp add: executeTool_def executeTool_try_def call_then_def)
  show "\<forall>e b'. snapshot browser (\<not> truthy (field args ''fullPage'')) b = (Inl e, b') \<longrightarrow>
      executeTool browser ''snapshot'' args b = (Inr (''Error: '' @ error_message e), b')"
    by (simp add: executeTool_def executeTool_try_def)
  show "\<forall>e b'. fill browser (field args ''target'') (field args ''value'') b = (Inl e, b') \<longrightarrow>
      executeTool browser ''fill'' args b = (Inr (''Error: '' @ error_message e), b')"
    by (simp add: executeTool_def executeTool_try_def call_then_def)
  show "\<forall>e b'. type_text browser (field args ''target'') (field args ''text'') b = (Inl e, b') \<longrightarrow>
      executeTool browser ''type'' args b = (Inr (''Error: '' @ error_message e), b')"
    by (simp add: executeTool_def executeTool_try_def call_then_def)
  show "\<forall>e b'. press browser (field args ''key'') b = (Inl e, b') \<longrightarrow>
      executeTool browser ''press'' args b = (Inr (''Error: '' @ error_message e), b')"
    by (simp add: executeTool_def executeTool_try_def call_then_def)
  show "\<forall>e b'. scroll browser (field args ''direction'') (js_or (field args ''amount'') (Num 500)) b
        = (Inl e, b') \<longrightarrow>
      executeTool browser ''scroll'' args b = (Inr (''Error: '' @ error_message e), b')"
    by (simp add: executeTool_def executeTool_try_def call_then_def)
  show "\<forall>e b'. \<not> truthy (field args ''ms'') \<longrightarrow> truthy (field args ''selector'') \<longrightarrow>
      waitForSelector browser (field args ''selector'') b = (Inl e, b') \<longrightarrow>
      executeTool browser ''wait'' args b = (Inr (''Error: '' @ error_message e), b')"
    by (simp add: executeTool_def executeTool_try_def call_then_def)
  show "n < maxTurns config \<longrightarrow>
    create \<lparr>req_model = model config, req_max_tokens = 4096, req_tools = tools,
            req_messages = messages\<rparr> m = (Inr content, m') \<longrightarrow>
    toolUses content \<noteq> [] \<longrightarrow>
    (\<forall>u \<in> set (toolUses content). tool_name u \<noteq> ''done'') \<longrightarrow>
    run_tools browser (toolUses content) [] s =
      (Tool_results (fst (observations browser (toolUses content) s)),
       snd (observations browser (toolUses content) s)) \<and>
    execute_loop config create browser n messages m s =
      execute_loop config create browser (n + 1)
        (messages @ [Assistant_content content,
                     User_results (fst (observations browser (toolUses content) s))])
        m' (snd (observations browser (toolUses content) s))"
  proof (intro impI)
    assume below: "n < maxTurns config"
      and resp: "create \<lparr>req_model = model config, req_max_tokens = 4096, req_tools = tools,
            req_messages = messages\<rparr> m = (Inr content, m')"
      and some: "toolUses content \<noteq> []"
      and no_done: "\<forall>u \<in> set (toolUses content). tool_name u \<noteq> ''done''"
    have run: "run_tools browser (toolUses content) [] s =
      (Tool_results (fst (observations browser (toolUses content) s)),
       snd (observations browser (toolUses content) s))"
      using run_tools_observations [OF no_done, of browser "[]" s] by simp
    from execute_loop_continue [where create = create and m = m, OF below resp some run] run
    show "run_tools browser (toolUses content) [] s =
      (Tool_results (fst (observations browser (toolUses content) s)),
       snd (observations browser (toolUses content) s)) \<and>
    execute_loop config create browser n messages m s =
      execute_loop config create browser (n + 1)
        (messages @ [Assistant_content content,
                     User_results (fst (observations browser (toolUses content) s))])
        m' (snd (observations browser (toolUses content) s))"
      by simp
  qed
qed

text \<open>
  An instance: a click on a target that the browser cannot resolve gives the text
  \<^verbatim>\<open>Error: No element matches @bad\<close>.  A model that fills this target on its first
  turn is sent that text as the result and, repeating it as free text on turn 2, makes
  it the summary of the run.
\<close>

theorem dispatcher_catches_errors_witness:
  "executeTool recording_browser ''click'' (map_of [(''target'', Str ''@bad'')]) []
     = (Inr ''Error: No element matches @bad'', []) \<and>
   execute test_config reporting recording_browser ''fill the form'' 0 []
     = (Inr \<lparr>success = Bool True, summary = Str ''Error: No element matches @bad'',
             turns = 2\<rparr>, 2, [])"
proof -
  let ?fill = "tool_request ''t1'' ''fill'' [(''target'', Str ''@bad''), (''value'', Str ''x'')]"
  let ?obs = "[\<lparr>tool_use_id = ''t1'', result_content = ''Error: No element matches @bad''\<rparr>]"
  note facts = dispatcher_catches_errors [where browser = recording_browser
      and args = "map_of [(''target'', Str ''@bad'')]" and b = "[]" and n = 0
      and config = test_config and create = reporting
      and messages = "[User_text ''fill the form'']" and m = 0 and m' = 1 and s = "[]"
      and content = "[?fill]"]
  have raised: "click recording_browser (field (map_of [(''target'', Str ''@bad'')]) ''target'') []
      = (Inl unresolved, [])"
    by (simp add: recording_browser_def field_def)
  from facts [THEN conjunct2, THEN conjunct2, THEN conjunct1, THEN spec, THEN spec, THEN mp,
      OF raised]
  have click: "executeTool recording_browser ''click'' (map_of [(''target'', Str ''@bad'')]) []
     = (Inr ''Error: No element matches @bad'', [])"
    by (simp add: unresolved_def)
  have below: "0 < maxTurns test_config" "0 + 1 < maxTurns test_config"
    by (simp_all add: test_config_def)
  have resp: "reporting \<lparr>req_model = model test_config, req_max_tokens = 4096, req_tools = tools,
        req_messages = [User_text ''fill the form'']\<rparr> 0 = (Inr [?fill], 1)"
    by (simp add: reporting_def)
  have some: "toolUses [?fill] \<noteq> []"
    by (simp add: tool_request_def)
  have names: "\<forall>u \<in> set (toolUses [?fill]). tool_name u \<noteq> ''done''"
    by (simp add: tool_request_def)
  have obs: "observations recording_browser (toolUses [?fill]) [] = (?obs, [])"
    by (simp add: observation_def fixture_defs executeTool_try_def call_then_def)
  from facts [THEN conjunct2, THEN conjunct2, THEN conjunct2, THEN conjunct2, THEN conjunct2,
      THEN conjunct2, THEN conjunct2, THEN conjunct2, THEN conjunct2, THEN conjunct1,
      THEN mp, THEN mp, THEN mp, THEN mp, OF below(1) resp some names]
  have step: "execute_loop test_config reporting recording_browser 0
        [User_text ''fill the form''] 0 []
      = execute_loop test_config reporting recording_browser (0 + 1)
        ([User_text ''fill the form''] @ [Assistant_content [?fill], User_results ?obs]) 1 []"
    by (simp add: obs)
  have answer: "reporting \<lparr>req_model = model test_config, req_max_tokens = 4096,
        req_tools = tools,
        req_messages = [User_text ''fill the form''] @ [Assistant_content [?fill],
                                                        User_results ?obs]\<rparr> 1
      = (Inr [Text_block ''Error: No element matches @bad''], 2)"
    by (simp add: reporting_def)
  have none: "toolUses [Text_block ''Error: No element matches @bad''] = []"
    by simp
  from step execute_loop_text [where create = reporting and m = 1, OF below(2) answer none,
      of recording_browser "[]"]
  have "execute test_config reporting recording_browser ''fill the form'' 0 []
     = (Inr \<lparr>success = Bool True, summary = Str ''Error: No element matches @bad'',
             turns = 2\<rparr>, 2, [])"
    by (simp add: execute_def js_or_def)
  with click show ?thesis by simp
qed

text \<open>
  Claim C1 as stated does not hold for the click handler of \<^verbatim>\<open>src/browser-agent.ts\<close>:
  on a target that the browser cannot resolve, the handler ends with the exception.
\<close>

theorem browser_click_reraises_counterexample:
  "browser_click recording_api ''@bad'' [] = (Inl (Error_object ''No element matches @bad''), [])"
  by (simp add: browser_click_def recording_api_def unresolved_def)

text \<open>
  Claim C8.  The scroll handler derives the delta from the direction, but it reads the
  amount with \<^verbatim>\<open>args.amount || 500\<close>: a request to scroll up by an amount of 0 is
  answered by evaluating \<^verbatim>\<open>window.scrollBy(0, -500)\<close> and reporting 500 pixels, where
  the delta of the requested amount is \<open>(0, 0)\<close>.
\<close>

theorem browser_scroll_zero_amount_scrolls_500:
  "browser_scroll recording_api Up (Some 0) [] =
     (Inr ''Scrolled up 500px'', [''window.scrollBy(0, -500)''])"
  by (simp add: browser_scroll_def amount_or_default_def recording_api_def scrollBy_script_def
      show_int_500 show_int_neg500 show_int_0)

text \<open>
  Claim C9.  Two snapshot requests with the same \<^verbatim>\<open>fullPage\<close> argument, the second
  made on the state the first one left, give the same text whenever the browser
  itself answers alike in both states (the page has not changed).  It holds for
  \<^verbatim>\<open>executeTool\<close>, whatever else the two inputs hold, and for the snapshot handler
  registered with the SDK.
\<close>

theorem snapshot_twice_same_tree:
  "(field args' ''fullPage'' = field args ''fullPage'' \<longrightarrow>
    (\<forall>i. fst (snapshot browser i (snd (executeTool browser ''snapshot'' args b)))
         = fst (snapshot browser i b)) \<longrightarrow>
    fst (executeTool browser ''snapshot'' args' (snd (executeTool browser ''snapshot'' args b)))
      = fst (executeTool browser ''snapshot'' args b)) \<and>
   ((\<forall>i. fst (getSnapshot api i (snd (browser_snapshot api fullPage s)))
         = fst (getSnapshot api i s)) \<longrightarrow>
    fst (browser_snapshot api fullPage (snd (browser_snapshot api fullPage s)))
      = fst (browser_snapshot api fullPage s))"
  by (simp add: executeTool_snapshot browser_snapshot_fst)

text \<open>
  An instance on the recording browser, whose log grows with every call while its
  tree stays the same.
\<close>

theorem snapshot_twice_same_tree_witness:
  "fst (executeTool recording_browser ''snapshot'' (map_of [(''fullPage'', Bool True)])
          (snd (executeTool recording_browser ''snapshot''
                  (map_of [(''fullPage'', Bool True), (''extra'', Num 1)]) [])))
     = Inr ''- heading Welcome - button Submit [ref=e1]'' \<and>
   fst (browser_snapshot recording_api None (snd (browser_snapshot recording_api None [])))
     = Inr ''- button Submit [ref=e1]''"
  using snapshot_twice_same_tree [where args' = "map_of [(''fullPage'', Bool True)]"
      and args = "map_of [(''fullPage'', Bool True), (''extra'', Num 1)]"
      and browser = recording_browser and b = "[]" and api = recording_api
      and fullPage = None and s = "[]"]
  by (simp add: executeTool_snapshot browser_snapshot_fst recording_browser_def
      recording_api_def field_def)

text \<open>
  Claim C10.  An explicit amount of 0 is not honoured: the amount is tested for
  truthiness, so the scroll handler and \<^verbatim>\<open>executeTool\<close> both treat it exactly as a
  request without an amount; they scroll by 500 and, when the browser accepts the
  call, report \<^verbatim>\<open>Scrolled <direction> 500px\<close>.
\<close>

theorem scroll_zero_amount_uses_default:
  "browser_scroll api dir (Some 0) s = browser_scroll api dir None s \<and>
   executeTool browser ''scroll'' (args(''amount'' \<mapsto> Num 0)) b
     = executeTool browser ''scroll'' (args(''amount'' := None)) b \<and>
   (getPage api s = (Inr page, s') \<longrightarrow>
    page_evaluate api page (scrollBy_script (scroll_delta dir 500)) s' = (Inr (), s'') \<longrightarrow>
    browser_scroll api dir (Some 0) s =
      (Inr (''Scrolled '' @ direction_name dir @ '' 500px''), s'')) \<and>
   (field args ''amount'' = Num 0 \<longrightarrow>
    scroll browser (field args ''direction'') (Num 500) b = (Inr (), b') \<longrightarrow>
    executeTool browser ''scroll'' args b =
      (Inr (''Scrolled '' @ to_string (field args ''direction'') @ '' 500px''), b'))"
proof (intro conjI)
  show "browser_scroll api dir (Some 0) s = browser_scroll api dir None s"
    unfolding browser_scroll_def amount_or_default_zero ..
  show "executeTool browser ''scroll'' (args(''amount'' \<mapsto> Num 0)) b
     = executeTool browser ''scroll'' (args(''amount'' := None)) b"
    unfolding executeTool_def executeTool_try_scroll_zero ..
  show "getPage api s = (Inr page, s') \<longrightarrow>
    page_evaluate api page (scrollBy_script (scroll_delta dir 500)) s' = (Inr (), s'') \<longrightarrow>
    browser_scroll api dir (Some 0) s =
      (Inr (''Scrolled '' @ direction_name dir @ '' 500px''), s'')"
    by (simp add: browser_scroll_def amount_or_default_def show_int_500)
  show "field args ''amount'' = Num 0 \<longrightarrow>
    scroll browser (field args ''direction'') (Num 500) b = (Inr (), b') \<longrightarrow>
    executeTool browser ''scroll'' args b =
      (Inr (''Scrolled '' @ to_string (field args ''direction'') @ '' 500px''), b')"
    by (simp add: executeTool_def executeTool_try_def js_or_def call_then_def show_int_500)
qed

text \<open>
  An instance: scrolling down by 0 evaluates \<^verbatim>\<open>window.scrollBy(0, 500)\<close>.
\<close>

theorem scroll_zero_amount_uses_default_witness:
  "browser_scroll recording_api Down (Some 0) [] =
     (Inr ''Scrolled down 500px'', [''window.scrollBy(0, 500)'']) \<and>
   executeTool recording_browser ''scroll''
       (map_of [(''direction'', Str ''down''), (''amount'', Num 0)]) [] =
     (Inr ''Scrolled down 500px'', [''scroll down 500''])"
  using scroll_zero_amount_uses_default [where api = recording_api and s = "[]"
      and page = "()" and s' = "[]" and dir = Down and s'' = "[''window.scrollBy(0, 500)'']"
      and args = "map_of [(''direction'', Str ''down''), (''amount'', Num 0)]"
      and browser = recording_browser and b = "[]" and b' = "[''scroll down 500'']",
      THEN conjunct2, THEN conjunct2]
  by (simp add: recording_api_def recording_browser_def field_def scrollBy_script_def
      show_int_500 show_int_0)

section \<open>The loop\<close>

text \<open>
  Claim C2, as the code has it.  With a turn budget that is not negative, every result
  that the turn-by-turn \<^verbatim>\<open>execute\<close> returns has \<open>0 \<le> turns \<le> maxTurns\<close>; with a
  negative budget it returns at once with \<open>turns = 0\<close>.  \<^verbatim>\<open>execute\<close> of
  \<^verbatim>\<open>src/browser-agent.ts\<close> hands the budget to the SDK and reports what the stream
  says: the \<^verbatim>\<open>num_turns\<close> of the first result message, or the number of assistant
  messages received when the stream ends without one.
\<close>

theorem turns_within_budget:
  "(0 \<le> maxTurns config \<longrightarrow>
    execute config create browser instruction m s = (Inr result, m', s') \<longrightarrow>
    0 \<le> turns result \<and> turns result \<le> maxTurns config) \<and>
   (maxTurns config < 0 \<longrightarrow>
    (\<exists>r. execute config create browser instruction m s = (Inr r, m, s) \<and> turns r = 0)) \<and>
   (\<forall>msgs r k rest.
      fst (query \<lparr>prompt = instruction, opt_model = model config,
                   opt_maxTurns = maxTurns config\<rparr> q)
        = yielding msgs (Stream_message (Result_success r k) rest) \<longrightarrow>
      (\<forall>x \<in> set msgs. \<not> is_result x) \<longrightarrow>
      (\<exists>res. fst (execute_sdk config query instruction q) = Inr res \<and> turns res = k)) \<and>
   (\<forall>msgs es k rest.
      fst (query \<lparr>prompt = instruction, opt_model = model config,
                   opt_maxTurns = maxTurns config\<rparr> q)
        = yielding msgs (Stream_message (Result_error es k) rest) \<longrightarrow>
      (\<forall>x \<in> set msgs. \<not> is_result x) \<longrightarrow>
      (\<exists>res. fst (execute_sdk config query instruction q) = Inr res \<and> turns res = k)) \<and>
   (\<forall>msgs.
      fst (query \<lparr>prompt = instruction, opt_model = model config,
                   opt_maxTurns = maxTurns config\<rparr> q) = yielding msgs Stream_end \<longrightarrow>
      (\<forall>x \<in> set msgs. \<not> is_result x) \<longrightarrow>
      (\<exists>res. fst (execute_sdk config query instruction q) = Inr res \<and>
         turns res = int (length (filter is_assistant msgs))))"
proof (intro conjI)
  show "0 \<le> maxTurns config \<longrightarrow>
    execute config create browser instruction m s = (Inr result, m', s') \<longrightarrow>
    0 \<le> turns result \<and> turns result \<le> maxTurns config"
    unfolding execute_def using execute_loop_turns [of 0 config create browser _ m s result m' s']
    by blast
  show "maxTurns config < 0 \<longrightarrow>
    (\<exists>r. execute config create browser instruction m s = (Inr r, m, s) \<and> turns r = 0)"
    unfolding execute_def
    using execute_loop_budget [of 0 config create browser "[User_text instruction]" m s]
    by auto
  show "\<forall>msgs r k rest.
      fst (query \<lparr>prompt = instruction, opt_model = model config,
                   opt_maxTurns = maxTurns config\<rparr> q)
        = yielding msgs (Stream_message (Result_success r k) rest) \<longrightarrow>
      (\<forall>x \<in> set msgs. \<not> is_result x) \<longrightarrow>
      (\<exists>res. fst (execute_sdk config query instruction q) = Inr res \<and> turns res = k)"
    by (auto simp: execute_sdk_def process_stream_yielding split: prod.splits)
  show "\<forall>msgs es k rest.
      fst (query \<lparr>prompt = instruction, opt_model = model config,
                   opt_maxTurns = maxTurns config\<rparr> q)
        = yielding msgs (Stream_message (Result_error es k) rest) \<longrightarrow>
      (\<forall>x \<in> set msgs. \<not> is_result x) \<longrightarrow>
      (\<exists>res. fst (execute_sdk config query instruction q) = Inr res \<and> turns res = k)"
    by (auto simp: execute_sdk_def process_stream_yielding split: prod.splits)
  show "\<forall>msgs.
      fst (query \<lparr>prompt = instruction, opt_model = model config,
                   opt_maxTurns = maxTurns config\<rparr> q) = yielding msgs Stream_end \<longrightarrow>
      (\<forall>x \<in> set msgs. \<not> is_result x) \<longrightarrow>
      (\<exists>res. fst (execute_sdk config query instruction q) = Inr res \<and>
         turns res = int (length (filter is_assistant msgs)))"
    by (auto simp: execute_sdk_def process_stream_yielding split: prod.splits)
qed

text \<open>
  An instance: a snapshot on the first turn and free text on the second give 2 turns
  out of 3, and a stream whose result message says 1 turn gives 1.
\<close>

theorem turns_within_budget_witness:
  "execute test_config
     (scripted [Inr [tool_request ''t1'' ''snapshot'' []], Inr [Text_block ''One button'']])
     recording_browser ''describe the page'' 0 []
   = (Inr \<lparr>success = Bool True, summary = Str ''One button'', turns = 2\<rparr>, 2, [''snapshot'']) \<and>
   0 \<le> turns \<lparr>success = Bool True, summary = Str ''One button'', turns = 2\<rparr> \<and>
   turns \<lparr>success = Bool True, summary = Str ''One button'', turns = 2\<rparr>
     \<le> maxTurns test_config \<and>
   (\<exists>res. fst (execute_sdk test_config
              (fixed_stream (yielding [Assistant_message [Text_block ''One button'']]
                 (Stream_message (Result_success ''One button'' 1) Stream_end)))
              ''describe the page'' ()) = Inr res \<and> turns res = 1)"
proof -
  let ?script = "scripted [Inr [tool_request ''t1'' ''snapshot'' []],
                           Inr [Text_block ''One button'']]"
  let ?tree = "''- button Submit [ref=e1]''"
  let ?stream = "yielding [Assistant_message [Text_block ''One button'']]
                   (Stream_message (Result_success ''One button'' 1) Stream_end)"
  note facts = turns_within_budget [where config = test_config and create = ?script
      and browser = recording_browser and instruction = "''describe the page''" and m = 0
      and s = "[]" and query = "fixed_stream ?stream" and q = "()"]
  have budget: "0 \<le> maxTurns test_config"
    by (simp add: test_config_def)
  have below: "0 < maxTurns test_config" "0 + 1 < maxTurns test_config"
    by (simp_all add: test_config_def)
  have first: "?script
      \<lparr>req_model = model test_config, req_max_tokens = 4096, req_tools = tools,
        req_messages = [User_text ''describe the page'']\<rparr> 0
    = (Inr [tool_request ''t1'' ''snapshot'' []], 1)"
    by (simp add: scripted_def)
  have some: "toolUses [tool_request ''t1'' ''snapshot'' []] \<noteq> []"
    by (simp add: tool_request_def)
  have tools_run: "run_tools recording_browser (toolUses [tool_request ''t1'' ''snapshot'' []]) [] []
     = (Tool_results [\<lparr>tool_use_id = ''t1'', result_content = ?tree\<rparr>], [''snapshot''])"
    by (simp add: fixture_defs tool_defs)
  have second: "?script
      \<lparr>req_model = model test_config, req_max_tokens = 4096, req_tools = tools,
        req_messages = [User_text ''describe the page'']
          @ [Assistant_content [tool_request ''t1'' ''snapshot'' []],
             User_results [\<lparr>tool_use_id = ''t1'', result_content = ?tree\<rparr>]]\<rparr> 1
    = (Inr [Text_block ''One button''], 2)"
    by (simp add: scripted_def)
  have none: "toolUses [Text_block ''One button''] = []"
    by simp
  have run: "execute test_config ?script recording_browser ''describe the page'' 0 []
   = (Inr \<lparr>success = Bool True, summary = Str ''One button'', turns = 2\<rparr>, 2, [''snapshot''])"
    using execute_loop_continue [where create = ?script and m = 0,
        OF below(1) first some tools_run]
      execute_loop_text [where create = ?script and m = 1, OF below(2) second none,
        of recording_browser "[''snapshot'']"]
    by (simp add: execute_def js_or_def)
  from facts [where result = "\<lparr>success = Bool True, summary = Str ''One button'', turns = 2\<rparr>"
      and m' = 2 and s' = "[''snapshot'']", THEN conjunct1, THEN mp, THEN mp, OF budget run]
  have bound: "0 \<le> turns \<lparr>success = Bool True, summary = Str ''One button'', turns = 2\<rparr> \<and>
     turns \<lparr>success = Bool True, summary = Str ''One button'', turns = 2\<rparr>
       \<le> maxTurns test_config" .
  have yielded: "fst (fixed_stream ?stream
      \<lparr>prompt = ''describe the page'', opt_model = model test_config,
        opt_maxTurns = maxTurns test_config\<rparr> ())
    = yielding [Assistant_message [Text_block ''One button'']]
        (Stream_message (Result_success ''One button'' 1) Stream_end)"
    by (simp add: fixed_stream_def)
  have no_result: "\<forall>x \<in> set [Assistant_message [Text_block ''One button'']]. \<not> is_result x"
    by simp
  from facts [THEN conjunct2, THEN conjunct2, THEN conjunct1,
      THEN spec, THEN spec, THEN spec, THEN spec, THEN mp, THEN mp, OF yielded no_result]
  have sdk: "\<exists>res. fst (execute_sdk test_config (fixed_stream ?stream)
              ''describe the page'' ()) = Inr res \<and> turns res = 1" .
  from run bound sdk show ?thesis by simp
qed

text \<open>
  Claim C2 as stated does not hold: with a budget of 3, a result message of the SDK
  that counts 7 turns is passed on as it is, and with a budget of \<open>-1\<close> the
  turn-by-turn loop returns \<open>turns = 0\<close>.
\<close>

theorem turns_beyond_budget_counterexample:
  "fst (execute_sdk test_config
          (fixed_stream (Stream_message (Result_success ''Logged in'' 7) Stream_end))
          ''log in'' ())
     = Inr \<lparr>success = Bool True, summary = Str ''Logged in'', turns = 7\<rparr> \<and>
   maxTurns test_config = 3 \<and>
   fst (execute \<lparr>model = ''sonnet'', maxTurns = - 1, timeout = 120000\<rparr>
          (scripted []) recording_browser ''log in'' 0 [])
     = Inr \<lparr>success = Bool False, summary = Str ''Task incomplete after -1 turns'', turns = 0\<rparr>"
proof -
  have sdk: "fst (execute_sdk test_config
          (fixed_stream (Stream_message (Result_success ''Logged in'' 7) Stream_end))
          ''log in'' ())
     = Inr \<lparr>success = Bool True, summary = Str ''Logged in'', turns = 7\<rparr>"
    by (simp add: execute_sdk_def fixed_stream_def js_or_def)
  have loop: "fst (execute \<lparr>model = ''sonnet'', maxTurns = - 1, timeout = 120000\<rparr>
          (scripted []) recording_browser ''log in'' 0 [])
     = Inr \<lparr>success = Bool False, summary = Str ''Task incomplete after -1 turns'', turns = 0\<rparr>"
    unfolding execute_def
    by (subst execute_loop.simps) (simp add: show_int_neg1)
  from sdk loop show ?thesis
    by (simp add: test_config_def)
qed

text \<open>
  Claim C3, as the code has it.  When the batch of a turn holds a \<^verbatim>\<open>done\<close> request,
  the requests before the first \<^verbatim>\<open>done\<close> are run in order, and \<^verbatim>\<open>execute\<close> then
  returns with the \<^verbatim>\<open>success\<close> and \<^verbatim>\<open>summary\<close> of that request and the number of
  this turn: the browser is left in the state reached after the earlier requests, so
  no request after \<^verbatim>\<open>done\<close> is run, and the model is not called again.
\<close>

theorem done_ends_after_earlier_requests:
  assumes "n < maxTurns config"
    and "create \<lparr>req_model = model config, req_max_tokens = 4096, req_tools = tools,
           req_messages = messages\<rparr> m = (Inr content, m')"
    and "toolUses content = earlier @ d # later"
    and "tool_name d = ''done''"
    and "\<forall>u \<in> set earlier. tool_name u \<noteq> ''done''"
  shows "\<exists>rs s'. run_tools browser earlier [] s = (Tool_results rs, s') \<and>
     execute_loop config create browser n messages m s =
       (Inr \<lparr>success = field (tool_input d) ''success'',
             summary = field (tool_input d) ''summary'',
             turns = n + 1\<rparr>, m', s')"
proof -
  from run_tools_no_done [OF assms(5), of browser "[]" s]
  obtain rs s' where run: "run_tools browser earlier [] s = (Tool_results rs, s')"
    by auto
  have "run_tools browser (toolUses content) [] s =
      (Done_signal (field (tool_input d) ''success'') (field (tool_input d) ''summary''), s')"
    using run_tools_done [OF assms(5) assms(4) run] assms(3) by simp
  moreover have "toolUses content \<noteq> []"
    using assms(3) by simp
  ultimately have "execute_loop config create browser n messages m s =
       (Inr \<lparr>success = field (tool_input d) ''success'',
             summary = field (tool_input d) ''summary'',
             turns = n + 1\<rparr>, m', s')"
    using execute_loop_done [where create = create and m = m, OF assms(1) assms(2)] by simp
  with run show ?thesis by blast
qed

text \<open>
  An instance: of the batch \<^verbatim>\<open>click @e1, done, click @e9\<close> on turn 2 only the first
  click reaches the browser.
\<close>

theorem done_ends_after_earlier_requests_witness:
  "0 < maxTurns test_config \<and>
   run_tools recording_browser
       (toolUses [tool_request ''t1'' ''click'' [(''target'', Str ''@e1'')]]) [] []
     = (Tool_results [\<lparr>tool_use_id = ''t1'', result_content = ''Clicked @e1''\<rparr>],
        [''click @e1'']) \<and>
   execute_loop test_config
     (scripted [Inr [tool_request ''t1'' ''click'' [(''target'', Str ''@e1'')],
                     tool_request ''t2'' ''done''
                       [(''success'', Bool True), (''summary'', Str ''Clicked the button'')],
                     tool_request ''t3'' ''click'' [(''target'', Str ''@e9'')]]])
     recording_browser 1 [User_text ''click the only button''] 0 []
   = (Inr \<lparr>success = Bool True, summary = Str ''Clicked the button'', turns = 2\<rparr>,
      1, [''click @e1''])"
proof -
  let ?click = "\<lparr>tool_id = ''t1'', tool_name = ''click'',
                  tool_input = map_of [(''target'', Str ''@e1'')]\<rparr>"
  let ?done = "\<lparr>tool_id = ''t2'', tool_name = ''done'',
                 tool_input = map_of [(''success'', Bool True),
                                      (''summary'', Str ''Clicked the button'')]\<rparr>"
  let ?late = "\<lparr>tool_id = ''t3'', tool_name = ''click'',
                 tool_input = map_of [(''target'', Str ''@e9'')]\<rparr>"
  let ?content = "[tool_request ''t1'' ''click'' [(''target'', Str ''@e1'')],
                   tool_request ''t2'' ''done''
                     [(''success'', Bool True), (''summary'', Str ''Clicked the button'')],
                   tool_request ''t3'' ''click'' [(''target'', Str ''@e9'')]]"
  have below: "1 < maxTurns test_config"
    by (simp add: test_config_def)
  have resp: "scripted [Inr ?content]
      \<lparr>req_model = model test_config, req_max_tokens = 4096, req_tools = tools,
        req_messages = [User_text ''click the only button'']\<rparr> 0 = (Inr ?content, 1)"
    by (simp add: scripted_def)
  have split: "toolUses ?content = [?click] @ ?done # [?late]"
    by (simp add: tool_request_def)
  have is_done: "tool_name ?done = ''done''"
    by simp
  have earlier: "\<forall>u \<in> set [?click]. tool_name u \<noteq> ''done''"
    by simp
  have run: "run_tools recording_browser [?click] [] []
     = (Tool_results [\<lparr>tool_use_id = ''t1'', result_content = ''Clicked @e1''\<rparr>],
        [''click @e1''])"
    by (simp add: fixture_defs tool_defs)
  from done_ends_after_earlier_requests [where create = "scripted [Inr ?content]" and m = 0
      and browser = recording_browser and s = "[]",
      OF below resp split is_done earlier] run below
  show ?thesis
    by (simp add: field_def tool_request_def)
qed

text \<open>
  Claim C3 as stated does not hold: the \<^verbatim>\<open>done\<close> request is looked for while the
  batch is run, not before.  A \<^verbatim>\<open>fill\<close> that precedes \<^verbatim>\<open>done\<close> in the same batch
  is carried out, as the browser's log shows.
\<close>

theorem done_runs_earlier_request_counterexample:
  "execute test_config
     (scripted [Inr [tool_request ''t1'' ''fill'' [(''target'', Str ''@e2''), (''value'', Str ''x'')],
                     tool_request ''t2'' ''done''
                       [(''success'', Bool True), (''summary'', Str ''Filled the field'')]]])
     recording_browser ''fill the field'' 0 []
   = (Inr \<lparr>success = Bool True, summary = Str ''Filled the field'', turns = 1\<rparr>,
      1, [''fill @e2''])"
proof -
  let ?content = "[tool_request ''t1'' ''fill'' [(''target'', Str ''@e2''), (''value'', Str ''x'')],
                   tool_request ''t2'' ''done''
                     [(''success'', Bool True), (''summary'', Str ''Filled the field'')]]"
  have below: "0 < maxTurns test_config"
    by (simp add: test_config_def)
  have resp: "scripted [Inr ?content]
      \<lparr>req_model = model test_config, req_max_tokens = 4096, req_tools = tools,
        req_messages = [User_text ''fill the field'']\<rparr> 0 = (Inr ?content, 1)"
    by (simp add: scripted_def)
  have some: "toolUses ?content \<noteq> []"
    by (simp add: tool_request_def)
  have run: "run_tools recording_browser (toolUses ?content) [] []
     = (Done_signal (Bool True) (Str ''Filled the field''), [''fill @e2''])"
    by (simp add: fixture_defs tool_defs)
  from execute_loop_done [where create = "scripted [Inr ?content]" and m = 0,
      OF below resp some run]
  show ?thesis
    by (simp add: execute_def)
qed

text \<open>
  Claim C4.  When the budget is not negative and the model gives no terminal signal
  during the first \<open>maxTurns\<close> turns of the run, \<^verbatim>\<open>execute\<close> returns
  \<^verbatim>\<open>success: false\<close> with \<open>turns = maxTurns\<close> and the summary
  \<^verbatim>\<open>Task incomplete after <maxTurns> turns\<close>, and the model service has been called
  exactly \<open>maxTurns\<close> times.
\<close>

theorem budget_exhaustion:
  "0 \<le> maxTurns config \<Longrightarrow>
   turns_without_signal (nat (maxTurns config)) config create browser
     [User_text instruction] m s \<Longrightarrow>
   \<exists>m' s'. execute config (counting create) browser instruction (m, 0) s =
     (Inr \<lparr>success = Bool False,
           summary = Str (''Task incomplete after '' @ show_int (maxTurns config) @ '' turns''),
           turns = maxTurns config\<rparr>,
      (m', nat (maxTurns config)), s')"
  using execute_loop_exhausts [of "nat (maxTurns config)" config 0 create browser
      "[User_text instruction]" m s 0]
  by (simp add: execute_def)

text \<open>
  An instance with a budget of 3: the script would end the task on its fourth answer,
  which is never asked for.
\<close>

theorem budget_exhaustion_witness:
  "0 \<le> maxTurns test_config \<and>
   turns_without_signal (nat (maxTurns test_config)) test_config
     (scripted [Inr [tool_request ''t1'' ''snapshot'' []],
                Inr [tool_request ''t2'' ''click'' [(''target'', Str ''@bad'')]],
                Inr [tool_request ''t3'' ''press'' [(''key'', Str ''Enter'')]],
                Inr [tool_request ''t4'' ''done'' [(''success'', Bool True), (''summary'', Str ''Late'')]]])
     recording_browser [User_text ''keep looking''] 0 [] \<and>
   (\<exists>m' s'. execute test_config
        (counting (scripted [Inr [tool_request ''t1'' ''snapshot'' []],
                Inr [tool_request ''t2'' ''click'' [(''target'', Str ''@bad'')]],
                Inr [tool_request ''t3'' ''press'' [(''key'', Str ''Enter'')]],
                Inr [tool_request ''t4'' ''done'' [(''success'', Bool True), (''summary'', Str ''Late'')]]]))
        recording_browser ''keep looking'' (0, 0) []
      = (Inr \<lparr>success = Bool False, summary = Str ''Task incomplete after 3 turns'',
              turns = 3\<rparr>, (m', 3), s'))"
proof -
  have budget: "0 \<le> maxTurns test_config"
    by (simp add: test_config_def)
  have three: "nat (maxTurns test_config) = Suc (Suc (Suc 0))"
    by (simp add: test_config_def)
  have run: "turns_without_signal (nat (maxTurns test_config)) test_config
     (scripted [Inr [tool_request ''t1'' ''snapshot'' []],
                Inr [tool_request ''t2'' ''click'' [(''target'', Str ''@bad'')]],
                Inr [tool_request ''t3'' ''press'' [(''key'', Str ''Enter'')]],
                Inr [tool_request ''t4'' ''done'' [(''success'', Bool True), (''summary'', Str ''Late'')]]])
     recording_browser [User_text ''keep looking''] 0 []"
    unfolding three by (simp add: fixture_defs tool_defs)
  from budget_exhaustion [OF budget run] budget run
  show ?thesis
    by (simp add: test_config_def show_int_3)
qed

text \<open>
  Claim C5, as the code has it.  When the answer of turn \<open>n + 1\<close> holds no tool request,
  the turn-by-turn \<^verbatim>\<open>execute\<close> returns \<^verbatim>\<open>success: true\<close> with \<open>turns = n + 1\<close>;
  the summary is the text of the answer's first text block, or \<^verbatim>\<open>Completed\<close> when
  there is no text block or that text is empty.  The browser is not touched.
  \<^verbatim>\<open>execute\<close> of \<^verbatim>\<open>src/browser-agent.ts\<close> returns \<^verbatim>\<open>success: true\<close> on the SDK's
  success message, with its \<^verbatim>\<open>num_turns\<close>, and when the stream ends without a
  result, with the number of assistant messages; the summary is the result text of
  the success message, or else the last assistant text (all text blocks of that
  message, joined by newlines), or else \<^verbatim>\<open>Completed\<close>.
\<close>

theorem free_text_turn_succeeds:
  "(n < maxTurns config \<longrightarrow>
    create \<lparr>req_model = model config, req_max_tokens = 4096, req_tools = tools,
            req_messages = messages\<rparr> m = (Inr content, m') \<longrightarrow>
    toolUses content = [] \<longrightarrow>
    execute_loop config create browser n messages m s =
      (Inr \<lparr>success = Bool True,
            summary = Str (case textBlocks content of [] \<Rightarrow> ''Completed''
                           | t # ts \<Rightarrow> if t = [] then ''Completed'' else t),
            turns = n + 1\<rparr>, m', s)) \<and>
   (\<forall>msgs r k rest.
      fst (query \<lparr>prompt = instruction, opt_model = model config,
                   opt_maxTurns = maxTurns config\<rparr> q)
        = yielding msgs (Stream_message (Result_success r k) rest) \<longrightarrow>
      (\<forall>x \<in> set msgs. \<not> is_result x) \<longrightarrow>
      fst (execute_sdk config query instruction q) =
        Inr \<lparr>success = Bool True,
             summary = Str (if r \<noteq> [] then r
                            else if last_text [] msgs \<noteq> [] then last_text [] msgs
                            else ''Completed''),
             turns = k\<rparr>) \<and>
   (\<forall>msgs.
      fst (query \<lparr>prompt = instruction, opt_model = model config,
                   opt_maxTurns = maxTurns config\<rparr> q) = yielding msgs Stream_end \<longrightarrow>
      (\<forall>x \<in> set msgs. \<not> is_result x) \<longrightarrow>
      fst (execute_sdk config query instruction q) =
        Inr \<lparr>success = Bool True,
             summary = Str (if last_text [] msgs \<noteq> [] then last_text [] msgs
                            else ''Completed''),
             turns = int (length (filter is_assistant msgs))\<rparr>)"
proof (intro conjI)
  show "n < maxTurns config \<longrightarrow>
    create \<lparr>req_model = model config, req_max_tokens = 4096, req_tools = tools,
            req_messages = messages\<rparr> m = (Inr content, m') \<longrightarrow>
    toolUses content = [] \<longrightarrow>
    execute_loop config create browser n messages m s =
      (Inr \<lparr>success = Bool True,
            summary = Str (case textBlocks content of [] \<Rightarrow> ''Completed''
                           | t # ts \<Rightarrow> if t = [] then ''Completed'' else t),
            turns = n + 1\<rparr>, m', s)"
    by (simp add: execute_loop_text summary_of_text)
  show "\<forall>msgs r k rest.
      fst (query \<lparr>prompt = instruction, opt_model = model config,
                   opt_maxTurns = maxTurns config\<rparr> q)
        = yielding msgs (Stream_message (Result_success r k) rest) \<longrightarrow>
      (\<forall>x \<in> set msgs. \<not> is_result x) \<longrightarrow>
      fst (execute_sdk config query instruction q) =
        Inr \<lparr>success = Bool True,
             summary = Str (if r \<noteq> [] then r
                            else if last_text [] msgs \<noteq> [] then last_text [] msgs
                            else ''Completed''),
             turns = k\<rparr>"
    by (auto simp: execute_sdk_def process_stream_yielding js_or_def split: prod.splits)
  show "\<forall>msgs.
      fst (query \<lparr>prompt = instruction, opt_model = model config,
                   opt_maxTurns = maxTurns config\<rparr> q) = yielding msgs Stream_end \<longrightarrow>
      (\<forall>x \<in> set msgs. \<not> is_result x) \<longrightarrow>
      fst (execute_sdk config query instruction q) =
        Inr \<lparr>success = Bool True,
             summary = Str (if last_text [] msgs \<noteq> [] then last_text [] msgs
                            else ''Completed''),
             turns = int (length (filter is_assistant msgs))\<rparr>"
    by (auto simp: execute_sdk_def process_stream_yielding js_or_def split: prod.splits)
qed

text \<open>
  Three instances: free text on the first turn, an empty answer on the third, and a
  success message without result text after an assistant message of two text blocks.
\<close>

theorem free_text_turn_succeeds_witness:
  "execute_loop test_config (scripted [Inr [Text_block ''Logged in'']]) recording_browser
       0 [User_text ''log in''] 0 []
     = (Inr \<lparr>success = Bool True, summary = Str ''Logged in'', turns = 1\<rparr>, 1, []) \<and>
   execute_loop test_config (scripted [Inr []]) recording_browser
       2 [User_text ''log in''] 0 []
     = (Inr \<lparr>success = Bool True, summary = Str ''Completed'', turns = 3\<rparr>, 1, []) \<and>
   fst (execute_sdk test_config
          (fixed_stream (yielding [Assistant_message [Text_block ''Logged in.'',
                                                      Text_block ''Dashboard shown.'']]
             (Stream_message (Result_success [] 1) Stream_end)))
          ''log in'' ())
     = Inr \<lparr>success = Bool True,
            summary = Str (''Logged in.'' @ [CHR 0x0A] @ ''Dashboard shown.''), turns = 1\<rparr>"
proof -
  let ?stream = "yielding [Assistant_message [Text_block ''Logged in.'',
                                              Text_block ''Dashboard shown.'']]
                   (Stream_message (Result_success [] 1) Stream_end)"
  have below: "0 < maxTurns test_config" "2 < maxTurns test_config"
    by (simp_all add: test_config_def)
  have r1: "scripted [Inr [Text_block ''Logged in'']]
      \<lparr>req_model = model test_config, req_max_tokens = 4096, req_tools = tools,
        req_messages = [User_text ''log in'']\<rparr> 0 = (Inr [Text_block ''Logged in''], 1)"
    by (simp add: scripted_def)
  have r2: "scripted [Inr []]
      \<lparr>req_model = model test_config, req_max_tokens = 4096, req_tools = tools,
        req_messages = [User_text ''log in'']\<rparr> 0 = (Inr [], 1)"
    by (simp add: scripted_def)
  have none: "toolUses [Text_block ''Logged in''] = []" "toolUses [] = []"
    by simp_all
  from free_text_turn_succeeds [where create = "scripted [Inr [Text_block ''Logged in'']]"
        and m = 0 and n = 0 and config = test_config and browser = recording_browser
        and s = "[]", THEN conjunct1, THEN mp, THEN mp, THEN mp, OF below(1) r1 none(1)]
  have one: "execute_loop test_config (scripted [Inr [Text_block ''Logged in'']])
       recording_browser 0 [User_text ''log in''] 0 []
     = (Inr \<lparr>success = Bool True, summary = Str ''Logged in'', turns = 1\<rparr>, 1, [])"
    by simp
  from free_text_turn_succeeds [where create = "scripted [Inr []]"
        and m = 0 and n = 2 and config = test_config and browser = recording_browser
        and s = "[]", THEN conjunct1, THEN mp, THEN mp, THEN mp, OF below(2) r2 none(2)]
  have two: "execute_loop test_config (scripted [Inr []]) recording_browser
       2 [User_text ''log in''] 0 []
     = (Inr \<lparr>success = Bool True, summary = Str ''Completed'', turns = 3\<rparr>, 1, [])"
    by simp
  have yielded: "fst (fixed_stream ?stream
      \<lparr>prompt = ''log in'', opt_model = model test_config,
        opt_maxTurns = maxTurns test_config\<rparr> ())
    = yielding [Assistant_message [Text_block ''Logged in.'', Text_block ''Dashboard shown.'']]
        (Stream_message (Result_success [] 1) Stream_end)"
    by (simp add: fixed_stream_def)
  have no_result: "\<forall>x \<in> set [Assistant_message [Text_block ''Logged in.'',
        Text_block ''Dashboard shown.'']]. \<not> is_result x"
    by simp
  from free_text_turn_succeeds [where config = test_config and query = "fixed_stream ?stream"
        and instruction = "''log in''" and q = "()", THEN conjunct2, THEN conjunct1,
        THEN spec, THEN spec, THEN spec, THEN spec, THEN mp, THEN mp, OF yielded no_result]
  have three: "fst (execute_sdk test_config (fixed_stream ?stream) ''log in'' ())
     = Inr \<lparr>success = Bool True,
            summary = Str (''Logged in.'' @ [CHR 0x0A] @ ''Dashboard shown.''), turns = 1\<rparr>"
    by (simp add: last_text_def)
  from one two three show ?thesis by simp
qed

text \<open>
  Claim C5 as stated does not hold for the turn-by-turn \<^verbatim>\<open>execute\<close>, which reads the
  first text block only: a turn whose first text block is empty and whose second
  holds text is summarised as \<^verbatim>\<open>Completed\<close>, and of two text blocks the second is
  left out of the summary.
\<close>

theorem first_text_block_only_counterexample:
  "execute test_config (scripted [Inr [Text_block [], Text_block ''Logged in'']])
       recording_browser ''log in'' 0 []
     = (Inr \<lparr>success = Bool True, summary = Str ''Completed'', turns = 1\<rparr>, 1, []) \<and>
   execute test_config (scripted [Inr [Text_block ''Logged in.'', Text_block ''Dashboard shown.'']])
       recording_browser ''log in'' 0 []
     = (Inr \<lparr>success = Bool True, summary = Str ''Logged in.'', turns = 1\<rparr>, 1, [])"
proof -
  have below: "0 < maxTurns test_config"
    by (simp add: test_config_def)
  have r1: "scripted [Inr [Text_block [], Text_block ''Logged in'']]
      \<lparr>req_model = model test_config, req_max_tokens = 4096, req_tools = tools,
        req_messages = [User_text ''log in'']\<rparr> 0
    = (Inr [Text_block [], Text_block ''Logged in''], 1)"
    by (simp add: scripted_def)
  have r2: "scripted [Inr [Text_block ''Logged in.'', Text_block ''Dashboard shown.'']]
      \<lparr>req_model = model test_config, req_max_tokens = 4096, req_tools = tools,
        req_messages = [User_text ''log in'']\<rparr> 0
    = (Inr [Text_block ''Logged in.'', Text_block ''Dashboard shown.''], 1)"
    by (simp add: scripted_def)
  from execute_loop_text [where create = "scripted [Inr [Text_block [], Text_block ''Logged in'']]"
        and m = 0, OF below r1, of recording_browser "[]"]
    execute_loop_text [where create = "scripted [Inr [Text_block ''Logged in.'',
          Text_block ''Dashboard shown.'']]" and m = 0, OF below r2, of recording_browser "[]"]
  show ?thesis
    by (simp add: execute_def js_or_def)
qed

section \<open>The boundary of execute\<close>

text \<open>
  Claim C6, as the code has it.  \<^verbatim>\<open>execute\<close> of \<^verbatim>\<open>src/browser-agent.ts\<close> never
  raises, whatever the SDK's stream does, and calls \<^verbatim>\<open>query\<close> exactly once.  When the
  stream raises \<open>e\<close> before any result message, the result is \<^verbatim>\<open>success: false\<close> with
  the summary \<^verbatim>\<open>Error: \<close> followed by the message of \<open>e\<close>, and \<open>turns\<close> counts the
  assistant messages received until then.  The turn-by-turn \<^verbatim>\<open>execute\<close> has no
  \<^verbatim>\<open>catch\<close>: what the model service raises on a turn below the budget leaves
  \<^verbatim>\<open>execute\<close> as it was raised, and the service is not called again.
\<close>

theorem execute_sdk_never_throws:
  "(\<exists>result. fst (execute_sdk config (counting query) instruction (q, c)) = Inr result) \<and>
   snd (snd (execute_sdk config (counting query) instruction (q, c))) = Suc c \<and>
   (\<forall>msgs e.
      fst (query \<lparr>prompt = instruction, opt_model = model config,
                   opt_maxTurns = maxTurns config\<rparr> q) = yielding msgs (Stream_raise e) \<longrightarrow>
      (\<forall>x \<in> set msgs. \<not> is_result x) \<longrightarrow>
      fst (execute_sdk config (counting query) instruction (q, c)) =
        Inr \<lparr>success = Bool False,
             summary = Str (''Error: '' @ error_message e),
             turns = int (length (filter is_assistant msgs))\<rparr>) \<and>
   (n < maxTurns config \<longrightarrow>
    create \<lparr>req_model = model config, req_max_tokens = 4096, req_tools = tools,
            req_messages = messages\<rparr> m = (Inl e', m') \<longrightarrow>
    execute_loop config create browser n messages m s = (Inl e', m', s))"
proof (intro conjI)
  show "\<exists>result. fst (execute_sdk config (counting query) instruction (q, c)) = Inr result"
    by (auto simp: execute_sdk_def counting_def split: prod.splits sum.splits)
  show "snd (snd (execute_sdk config (counting query) instruction (q, c))) = Suc c"
    by (auto simp: execute_sdk_def counting_def split: prod.splits sum.splits)
  show "\<forall>msgs e.
      fst (query \<lparr>prompt = instruction, opt_model = model config,
                   opt_maxTurns = maxTurns config\<rparr> q) = yielding msgs (Stream_raise e) \<longrightarrow>
      (\<forall>x \<in> set msgs. \<not> is_result x) \<longrightarrow>
      fst (execute_sdk config (counting query) instruction (q, c)) =
        Inr \<lparr>success = Bool False,
             summary = Str (''Error: '' @ error_message e),
             turns = int (length (filter is_assistant msgs))\<rparr>"
    by (auto simp: execute_sdk_def counting_def process_stream_yielding
        split: prod.splits sum.splits)
  show "n < maxTurns config \<longrightarrow>
    create \<lparr>req_model = model config, req_max_tokens = 4096, req_tools = tools,
            req_messages = messages\<rparr> m = (Inl e', m') \<longrightarrow>
    execute_loop config create browser n messages m s = (Inl e', m', s)"
    by (simp add: execute_loop_raise)
qed

text \<open>
  Instances: the stream raises \<^verbatim>\<open>rate limited\<close> after one assistant message, and the
  model service of the turn-by-turn loop raises on the second turn.
\<close>

theorem execute_sdk_never_throws_witness:
  "fst (execute_sdk test_config
          (counting (fixed_stream (yielding [Assistant_message [Text_block ''Looking'']]
                                     (Stream_raise (Error_object ''rate limited'')))))
          ''log in'' ((), 0))
     = Inr \<lparr>success = Bool False, summary = Str ''Error: rate limited'', turns = 1\<rparr> \<and>
   snd (snd (execute_sdk test_config
          (counting (fixed_stream (yielding [Assistant_message [Text_block ''Looking'']]
                                     (Stream_raise (Error_object ''rate limited'')))))
          ''log in'' ((), 0))) = 1 \<and>
   execute_loop test_config (scripted [Inr [], Inl (Thrown_value (Str ''overloaded''))])
       recording_browser 1 [User_text ''log in''] 1 [''snapshot'']
     = (Inl (Thrown_value (Str ''overloaded'')), 2, [''snapshot''])"
proof -
  let ?stream = "yielding [Assistant_message [Text_block ''Looking'']]
                   (Stream_raise (Error_object ''rate limited''))"
  let ?script = "scripted [Inr [], Inl (Thrown_value (Str ''overloaded''))]"
  have raised: "fst (fixed_stream ?stream
      \<lparr>prompt = ''log in'', opt_model = model test_config,
        opt_maxTurns = maxTurns test_config\<rparr> ())
    = yielding [Assistant_message [Text_block ''Looking'']]
        (Stream_raise (Error_object ''rate limited''))"
    by (simp add: fixed_stream_def)
  have no_result: "\<forall>x \<in> set [Assistant_message [Text_block ''Looking'']]. \<not> is_result x"
    by simp
  have below: "1 < maxTurns test_config"
    by (simp add: test_config_def)
  have resp: "?script
      \<lparr>req_model = model test_config, req_max_tokens = 4096, req_tools = tools,
        req_messages = [User_text ''log in'']\<rparr> 1 = (Inl (Thrown_value (Str ''overloaded'')), 2)"
    by (simp add: scripted_def)
  note facts = execute_sdk_never_throws [where config = test_config
      and query = "fixed_stream ?stream" and instruction = "''log in''" and q = "()" and c = 0
      and create = ?script and m = 1 and n = 1 and messages = "[User_text ''log in'']"
      and browser = recording_browser and s = "[''snapshot'']"]
  from facts [THEN conjunct2, THEN conjunct1]
  have once: "snd (snd (execute_sdk test_config (counting (fixed_stream ?stream))
      ''log in'' ((), 0))) = Suc 0" .
  from facts [THEN conjunct2, THEN conjunct2, THEN conjunct1, THEN spec, THEN spec,
      THEN mp, THEN mp, OF raised no_result]
  have caught: "fst (execute_sdk test_config (counting (fixed_stream ?stream)) ''log in'' ((), 0))
     = Inr \<lparr>success = Bool False, summary = Str ''Error: rate limited'', turns = 1\<rparr>"
    by simp
  from facts [THEN conjunct2, THEN conjunct2, THEN conjunct2, THEN mp, THEN mp, OF below resp]
  have left: "execute_loop test_config ?script recording_browser 1 [User_text ''log in''] 1
      [''snapshot''] = (Inl (Thrown_value (Str ''overloaded'')), 2, [''snapshot''])" .
  from caught once left show ?thesis by simp
qed

text \<open>
  Claim C6 as stated does not hold for the turn-by-turn \<^verbatim>\<open>execute\<close>: a model service
  that raises on the first turn makes \<^verbatim>\<open>execute\<close> end with that exception.
\<close>

theorem execute_rethrows_model_failure_counterexample:
  "execute test_config (scripted [Inl (Error_object ''rate limited'')])
       recording_browser ''log in'' 0 []
     = (Inl (Error_object ''rate limited''), 1, [])"
proof -
  have below: "0 < maxTurns test_config"
    by (simp add: test_config_def)
  have resp: "scripted [Inl (Error_object ''rate limited'')]
      \<lparr>req_model = model test_config, req_max_tokens = 4096, req_tools = tools,
        req_messages = [User_text ''log in'']\<rparr> 0 = (Inl (Error_object ''rate limited''), 1)"
    by (simp add: scripted_def)
  from execute_loop_raise [where create = "scripted [Inl (Error_object ''rate limited'')]"
      and m = 0, OF below resp, of recording_browser "[]"]
  show ?thesis
    by (simp add: execute_def)
qed

text \<open>
  Claim C7, as the code has it.  The instruction is checked by the \<^verbatim>\<open>do\<close> command
  handler, not by \<^verbatim>\<open>execute\<close>: an instruction that is not a non-empty string is
  answered with the error \<^verbatim>\<open>Missing instruction\<close>, and neither the model service
  nor the browser is touched.
\<close>

theorem do_command_rejects_missing_instruction:
  "(\<forall>i. instruction = Str i \<longrightarrow> i = []) \<Longrightarrow>
   do_command create browser instruction config m s = (Do_error ''Missing instruction'', m, s)"
  by (cases instruction) (simp_all add: do_command_def)

text \<open>
  Instances: the empty string and a missing instruction.
\<close>

theorem do_command_rejects_missing_instruction_witness:
  "do_command (counting (scripted [])) recording_browser (Str []) None (0, 0) []
     = (Do_error ''Missing instruction'', (0, 0), []) \<and>
   do_command (counting (scripted [])) recording_browser Undefined None (0, 0) []
     = (Do_error ''Missing instruction'', (0, 0), [])"
proof -
  have empty: "\<forall>i. Str [] = Str i \<longrightarrow> i = []" by simp
  have missing: "\<forall>i. Undefined = Str i \<longrightarrow> i = []" by simp
  from do_command_rejects_missing_instruction [OF empty, of "counting (scripted [])"
        recording_browser None "(0, 0)" "[]"]
    do_command_rejects_missing_instruction [OF missing, of "counting (scripted [])"
        recording_browser None "(0, 0)" "[]"]
  show ?thesis by simp
qed

text \<open>
  Claim C7 as stated does not hold: given the empty instruction, both versions of
  \<^verbatim>\<open>execute\<close> call the model service once and return what it answered.
\<close>

theorem execute_runs_on_empty_instruction:
  "execute test_config (counting (scripted [Inr [Text_block ''Nothing to do'']]))
       recording_browser [] (0, 0) []
     = (Inr \<lparr>success = Bool True, summary = Str ''Nothing to do'', turns = 1\<rparr>, (1, 1), []) \<and>
   execute_sdk test_config
       (counting (fixed_stream
          (yielding [Assistant_message [Text_block ''Nothing to do'']] Stream_end)))
       [] ((), 0)
     = (Inr \<lparr>success = Bool True, summary = Str ''Nothing to do'', turns = 1\<rparr>, ((), 1))"
proof -
  let ?script = "counting (scripted [Inr [Text_block ''Nothing to do'']])"
  have below: "0 < maxTurns test_config"
    by (simp add: test_config_def)
  have resp: "?script
      \<lparr>req_model = model test_config, req_max_tokens = 4096, req_tools = tools,
        req_messages = [User_text []]\<rparr> (0, 0) = (Inr [Text_block ''Nothing to do''], (1, 1))"
    by (simp add: scripted_def counting_def)
  have none: "toolUses [Text_block ''Nothing to do''] = []"
    by simp
  have loop: "execute test_config ?script recording_browser [] (0, 0) []
     = (Inr \<lparr>success = Bool True, summary = Str ''Nothing to do'', turns = 1\<rparr>, (1, 1), [])"
    using execute_loop_text [where create = ?script and m = "(0, 0)", OF below resp none,
        of recording_browser "[]"]
    by (simp add: execute_def js_or_def)
  have sdk: "execute_sdk test_config
       (counting (fixed_stream
          (yielding [Assistant_message [Text_block ''Nothing to do'']] Stream_end)))
       [] ((), 0)
     = (Inr \<lparr>success = Bool True, summary = Str ''Nothing to do'', turns = 1\<rparr>, ((), 1))"
    by (simp add: execute_sdk_def counting_def fixed_stream_def js_or_def)
  from loop sdk show ?thesis by simp
qed

end
